theory Spec2Isabelle
  imports Complex_Main
begin

section \<open>Numbers and points\<close>

text \<open>
  JavaScript numbers are modelled as real numbers: the development is about the
  arithmetic the code writes down, not about IEEE rounding. A point object
  \<^verbatim>\<open>{x, y, z}\<close> is a record of three reals.
\<close>

record vec3 =
  vx :: real
  vy :: real
  vz :: real

section \<open>Kalman filter (src/lib/kalman\_filter.js)\<close>

text \<open>
  The class \<^verbatim>\<open>KalmanFilter3D\<close>: the fields \<^verbatim>\<open>this.x\<close> and \<^verbatim>\<open>this.p\<close> are
  \<open>kf_x\<close> and \<open>kf_p\<close>. A method takes the object and returns the updated object;
  \<^verbatim>\<open>update\<close> also returns its result, the copy \<^verbatim>\<open>{...this.x}\<close>.
\<close>

record KalmanFilter3D =
  processNoise :: real
  measurementNoise :: real
  kf_x :: vec3
  kf_p :: vec3
  initd :: bool

definition kalman_constructor :: "real \<Rightarrow> real \<Rightarrow> KalmanFilter3D" where
  "kalman_constructor pn mn =
     \<lparr>processNoise = pn, measurementNoise = mn,
      kf_x = \<lparr>vx = 0, vy = 0, vz = 0\<rparr>, kf_p = \<lparr>vx = 1, vy = 1, vz = 1\<rparr>, initd = False\<rparr>"

definition kalman_init :: "vec3 \<Rightarrow> KalmanFilter3D \<Rightarrow> KalmanFilter3D" where
  "kalman_init m f = f\<lparr>kf_x := m, kf_p := \<lparr>vx = 1, vy = 1, vz = 1\<rparr>, initd := True\<rparr>"

definition kalman_update :: "vec3 \<Rightarrow> KalmanFilter3D \<Rightarrow> vec3 \<times> KalmanFilter3D" where
  "kalman_update m f0 =
     (let f = (if \<not> initd f0 then kalman_init m f0 else f0);
          p1 = \<lparr>vx = vx (kf_p f) + processNoise f,
                vy = vy (kf_p f) + processNoise f,
                vz = vz (kf_p f) + processNoise f\<rparr>;
          kx = vx p1 / (vx p1 + measurementNoise f);
          ky = vy p1 / (vy p1 + measurementNoise f);
          kz = vz p1 / (vz p1 + measurementNoise f);
          x1 = \<lparr>vx = vx (kf_x f) + kx * (vx m - vx (kf_x f)),
                vy = vy (kf_x f) + ky * (vy m - vy (kf_x f)),
                vz = vz (kf_x f) + kz * (vz m - vz (kf_x f))\<rparr>;
          p2 = \<lparr>vx = (1 - kx) * vx p1, vy = (1 - ky) * vy p1, vz = (1 - kz) * vz p1\<rparr>
      in (x1, f\<lparr>kf_x := x1, kf_p := p2\<rparr>))"

section \<open>Path helpers (src/lib/pano\_helpers.js)\<close>

text \<open>
  \<^verbatim>\<open>Math.hypot\<close> of three numbers.
\<close>

definition hypot3 :: "real \<Rightarrow> real \<Rightarrow> real \<Rightarrow> real" where
  "hypot3 a b c = sqrt (a * a + b * b + c * c)"

subsection \<open>fixOverlappingPoints\<close>

text \<open>
  \<^verbatim>\<open>Math.random()\<close> is a stream \<open>rnd\<close> of numbers in \<open>[0, 1)\<close> with a read
  position \<open>k\<close>: each call reads \<open>rnd k\<close> and advances the position. The body of the
  \<^verbatim>\<open>for\<close> loop is \<open>fix_loop\<close>, which scans the points after the first one;
  \<open>fixed\<close> is the array being built.
\<close>

fun fix_loop :: "real \<Rightarrow> (nat \<Rightarrow> real) \<Rightarrow> vec3 list \<Rightarrow> nat \<Rightarrow> vec3 list \<Rightarrow> vec3 list" where
  "fix_loop minDist rnd fixed k [] = fixed"
| "fix_loop minDist rnd fixed k (cur # rest) =
     (let prev = fixed ! (length fixed - 1);
          d = hypot3 (vx cur - vx prev) (vy cur - vy prev) (vz cur - vz prev)
      in if d < minDist then
           (let dir = (if d < 1 / 1000000
                       then \<lparr>vx = rnd k - 1 / 2, vy = rnd (k + 1) - 1 / 2, vz = rnd (k + 2) - 1 / 2\<rparr>
                       else \<lparr>vx = (vx cur - vx prev) / d, vy = (vy cur - vy prev) / d,
                             vz = (vz cur - vz prev) / d\<rparr>);
                k' = (if d < 1 / 1000000 then k + 3 else k);
                mid = \<lparr>vx = (vx prev + vx cur) / 2, vy = (vy prev + vy cur) / 2,
                       vz = (vz prev + vz cur) / 2\<rparr>;
                h = minDist / 2;
                fixed1 = fixed[length fixed - 1 :=
                           \<lparr>vx = vx mid - vx dir * h, vy = vy mid - vy dir * h, vz = vz mid - vz dir * h\<rparr>];
                fixed2 = fixed1 @
                           [\<lparr>vx = vx mid + vx dir * h, vy = vy mid + vy dir * h, vz = vz mid + vz dir * h\<rparr>]
            in fix_loop minDist rnd fixed2 k' rest)
         else fix_loop minDist rnd (fixed @ [cur]) k rest)"

definition fixOverlappingPoints :: "(nat \<Rightarrow> real) \<Rightarrow> vec3 list \<Rightarrow> real \<Rightarrow> vec3 list" where
  "fixOverlappingPoints rnd points minDist =
     (if length points < 2 then points
      else fix_loop minDist rnd [points ! 0] 0 (tl points))"

text \<open>
  The minimum-separation invariant of a path: no two consecutive points are closer than
  the threshold.
\<close>

fun min_separated :: "real \<Rightarrow> vec3 list \<Rightarrow> bool" where
  "min_separated minDist (p # q # ps) =
     (\<not> hypot3 (vx q - vx p) (vy q - vy p) (vz q - vz p) < minDist \<and> min_separated minDist (q # ps))"
| "min_separated minDist ps = True"

subsection \<open>Matrix helpers\<close>

text \<open>
  A matrix is an array of rows. \<^verbatim>\<open>multiply\<close> reads \<^verbatim>\<open>B[0].length\<close> as soon as
  \<open>A\<close> has a row, which throws a TypeError when \<open>B\<close> is empty: the result is
  \<open>None\<close> then. The matrices that \<^verbatim>\<open>savitzkyGolay\<close> builds are rectangular and of
  matching dimensions, so every other index read is in range.
\<close>

definition transpose_m :: "real list list \<Rightarrow> real list list" where
  "transpose_m M =
     (if M = [] then []
      else map (\<lambda>i. map (\<lambda>r. r ! i) M) [0..<length (M ! 0)])"

definition multiply :: "real list list \<Rightarrow> real list list \<Rightarrow> real list list option" where
  "multiply A B =
     (if A \<noteq> [] \<and> B = [] then None
      else Some (map (\<lambda>i. map (\<lambda>j. foldl (\<lambda>acc k. acc + (A ! i) ! k * (B ! k) ! j) 0 [0..<length B])
                                [0..<length (B ! 0)])
                     [0..<length A]))"

text \<open>
  \<^verbatim>\<open>invert\<close>: Gauss-Jordan elimination without pivoting on the pair \<open>(A, I)\<close>. A zero
  pivot, and any pivot smaller than \<open>1e-12\<close> in absolute value, is replaced by
  \<open>1e-12\<close>.
\<close>

definition invert_scale_row :: "nat \<Rightarrow> nat \<Rightarrow> real \<Rightarrow> real list list \<Rightarrow> real list list" where
  "invert_scale_row n i diag A =
     foldl (\<lambda>A' j. A'[i := (A' ! i)[j := (A' ! i) ! j / diag]]) A [0..<n]"

definition invert_eliminate :: "nat \<Rightarrow> nat \<Rightarrow> (real list list \<times> real list list) \<Rightarrow> nat
    \<Rightarrow> (real list list \<times> real list list)" where
  "invert_eliminate n i AI k =
     (if k \<noteq> i then
        (let f = (fst AI ! k) ! i
         in foldl (\<lambda>(A', I') j.
                     (A'[k := (A' ! k)[j := (A' ! k) ! j - f * (A' ! i) ! j]],
                      I'[k := (I' ! k)[j := (I' ! k) ! j - f * (I' ! i) ! j]]))
                  AI [0..<n])
      else AI)"

definition invert_step :: "nat \<Rightarrow> (real list list \<times> real list list) \<Rightarrow> nat
    \<Rightarrow> (real list list \<times> real list list)" where
  "invert_step n AI i =
     (let d0 = (if (fst AI ! i) ! i = 0 then 1 / 1000000000000 else (fst AI ! i) ! i);
          diag = (if \<bar>d0\<bar> < 1 / 1000000000000 then 1 / 1000000000000 else d0);
          A1 = invert_scale_row n i diag (fst AI);
          I1 = invert_scale_row n i diag (snd AI)
      in foldl (invert_eliminate n i) (A1, I1) [0..<n])"

definition invert :: "real list list \<Rightarrow> real list list" where
  "invert M =
     (let n = length M
      in if n = 0 then []
         else snd (foldl (invert_step n)
                     (M, map (\<lambda>i. map (\<lambda>j. if i = j then 1 else 0) [0..<length (M ! i)]) [0..<n])
                     [0..<n]))"

subsection \<open>savitzkyGolay\<close>

text \<open>
  The window size and the polynomial order are integers. The \<^verbatim>\<open>try\<close> block is
  \<open>sg_basis\<close> followed by the convolution; a TypeError anywhere in it makes the function
  return its input (\<^verbatim>\<open>catch\<close>). \<^verbatim>\<open>coeffs = basis[half]\<close> is \<^verbatim>\<open>undefined\<close> when the
  index is out of range, and reading \<^verbatim>\<open>coeffs[k + half]\<close> throws then; with a negative
  \<open>half\<close> the inner loop never runs and nothing is read.
\<close>

definition sg_basis :: "real list list \<Rightarrow> real list list option" where
  "sg_basis A =
     (let AT = transpose_m A
      in case multiply AT A of
           None \<Rightarrow> None
         | Some ATA \<Rightarrow>
             (case multiply A (invert ATA) of
                None \<Rightarrow> None
              | Some AInv \<Rightarrow> multiply AInv AT))"

definition sg_point :: "vec3 list \<Rightarrow> real list \<Rightarrow> int \<Rightarrow> nat \<Rightarrow> vec3" where
  "sg_point points coeffs half i =
     foldl (\<lambda>s k.
              (let idx = nat (min (max (int i + k) 0) (int (length points) - 1));
                   w = coeffs ! nat (k + half)
               in \<lparr>vx = vx s + w * vx (points ! idx),
                   vy = vy s + w * vy (points ! idx),
                   vz = vz s + w * vz (points ! idx)\<rparr>))
           \<lparr>vx = 0, vy = 0, vz = 0\<rparr> [- half..half]"

definition savitzkyGolay :: "vec3 list \<Rightarrow> int \<Rightarrow> int \<Rightarrow> vec3 list" where
  "savitzkyGolay points windowSize0 polyOrder =
     (if points = [] then []
      else
        (let windowSize = (if windowSize0 mod 2 = 0 then windowSize0 + 1 else windowSize0);
             half = windowSize div 2;
             n = length points;
             A = map (\<lambda>i. map (\<lambda>j. (of_int i :: real) ^ nat j) [0..polyOrder]) [- half..half]
         in case sg_basis A of
              None \<Rightarrow> points
            | Some basis \<Rightarrow>
                (if half < 0 then map (\<lambda>i. \<lparr>vx = 0, vy = 0, vz = 0\<rparr>) [0..<n]
                 else if nat half < length basis
                 then map (sg_point points (basis ! nat half) half) [0..<n]
                 else points)))"

section \<open>Synchronisation store (src/store/syncStore.js)\<close>

text \<open>
  A position held in the store is either an array \<^verbatim>\<open>[x, y, z]\<close> or an object
  \<^verbatim>\<open>{x, y, z}\<close>; \<open>None\<close> is \<^verbatim>\<open>null\<close>. Reading index \<open>i\<close> of an object, or of an
  array that is too short, gives \<^verbatim>\<open>undefined\<close>; a difference with \<^verbatim>\<open>undefined\<close> is
  \<^verbatim>\<open>NaN\<close>, and every comparison with \<^verbatim>\<open>NaN\<close> is false.
\<close>

datatype jsvec = JsArray "real list" | JsObject vec3

definition js_index :: "jsvec option \<Rightarrow> nat \<Rightarrow> real option" where
  "js_index v i =
     (case v of
        Some (JsArray xs) \<Rightarrow> (if i < length xs then Some (xs ! i) else None)
      | _ \<Rightarrow> None)"

definition abs_diff_below :: "real option \<Rightarrow> real option \<Rightarrow> real \<Rightarrow> bool" where
  "abs_diff_below a b tolerance =
     (case (a, b) of (Some u, Some v) \<Rightarrow> \<bar>u - v\<bar> < tolerance | _ \<Rightarrow> False)"

definition vectorEqual :: "jsvec option \<Rightarrow> jsvec option \<Rightarrow> real \<Rightarrow> bool" where
  "vectorEqual v1 v2 tolerance =
     (if v1 = None \<or> v2 = None then False
      else abs_diff_below (js_index v1 0) (js_index v2 0) tolerance \<and>
           abs_diff_below (js_index v1 1) (js_index v2 1) tolerance \<and>
           abs_diff_below (js_index v1 2) (js_index v2 2) tolerance)"

definition quatEqual :: "jsvec option \<Rightarrow> jsvec option \<Rightarrow> real \<Rightarrow> bool" where
  "quatEqual q1 q2 tolerance =
     (if q1 = None \<or> q2 = None then False
      else abs_diff_below (js_index q1 0) (js_index q2 0) tolerance \<and>
           abs_diff_below (js_index q1 1) (js_index q2 1) tolerance \<and>
           abs_diff_below (js_index q1 2) (js_index q2 2) tolerance \<and>
           abs_diff_below (js_index q1 3) (js_index q2 3) tolerance)"

datatype viewer = Pano | Forge

record cam =
  cam_pos :: "real list"
  cam_quat :: "real list"

text \<open>
  The store's state together with the closure variable \<^verbatim>\<open>rafId\<close>. The fields the pose
  reports never touch and whose values are objects or functions (\<^verbatim>\<open>calibration\<close>,
  \<^verbatim>\<open>floorClick\<close>, \<^verbatim>\<open>panoJumpRequest\<close>) are the extension part of the record: the
  actions are defined for every extension. \<^verbatim>\<open>syncCount\<close> is a natural number.
\<close>

record syncStore =
  panoCam :: cam
  forgeCam :: cam
  panoPosition :: "jsvec option"
  forgePosition :: "jsvec option"
  targetPanoPose :: "(real list \<times> real list) option"
  targetForgePose :: "(real list \<times> real list) option"
  isAnimating :: bool
  syncStartTime :: real
  isSyncing :: bool
  source :: "viewer option"
  lastSyncTime :: real
  syncInProgress :: bool
  syncCount :: nat
  isUserInitiated :: bool
  floorClickSeq :: nat
  frameIdx :: nat
  pathPoints :: "vec3 list"
  currentPanoIndex :: nat
  rafId :: "nat option"

definition initial_store :: syncStore where
  "initial_store =
     \<lparr>panoCam = \<lparr>cam_pos = [12246467991473532 / 10 ^ 32, - 14142135623730951 / 10 ^ 15,
                             2314213562373095 / 10 ^ 14],
                  cam_quat = [0, 1, 0, 6123233995736766 / 10 ^ 32]\<rparr>,
      forgeCam = \<lparr>cam_pos = [696 / 10, 936 / 10, 591 / 100],
                   cam_quat = [0, 7071 / 10000, 0, 7071 / 10000]\<rparr>,
      panoPosition = Some (JsObject \<lparr>vx = 0, vy = 0, vz = 0\<rparr>),
      forgePosition = Some (JsObject \<lparr>vx = 0, vy = 0, vz = 0\<rparr>),
      targetPanoPose = None,
      targetForgePose = None,
      isAnimating = False,
      syncStartTime = 0,
      isSyncing = False,
      source = None,
      lastSyncTime = 0,
      syncInProgress = False,
      syncCount = 0,
      isUserInitiated = False,
      floorClickSeq = 0,
      frameIdx = 0,
      pathPoints = [],
      currentPanoIndex = 0,
      rafId = None\<rparr>"

definition setSource :: "viewer option \<Rightarrow> 'a syncStore_scheme \<Rightarrow> 'a syncStore_scheme" where
  "setSource src s = s\<lparr>source := src\<rparr>"

definition setPanoPosition :: "jsvec option \<Rightarrow> 'a syncStore_scheme \<Rightarrow> 'a syncStore_scheme" where
  "setPanoPosition pos s = s\<lparr>panoPosition := pos\<rparr>"

definition setForgePosition :: "jsvec option \<Rightarrow> 'a syncStore_scheme \<Rightarrow> 'a syncStore_scheme" where
  "setForgePosition pos s = s\<lparr>forgePosition := pos\<rparr>"

text \<open>
  The pose reports. \<open>now1\<close> and \<open>now2\<close> are the two readings of \<^verbatim>\<open>Date.now()\<close> and
  \<open>frame\<close> is the handle that \<^verbatim>\<open>requestAnimationFrame\<close> returns; a pending frame is
  cancelled and replaced by the new one. The reported position and quaternion are arrays.
\<close>

definition smoothSyncPano ::
    "real \<Rightarrow> real \<Rightarrow> nat \<Rightarrow> real list \<Rightarrow> real list \<Rightarrow> 'a syncStore_scheme \<Rightarrow> 'a syncStore_scheme" where
  "smoothSyncPano now1 now2 frame pos quat s =
     (let changed =
            (\<not> vectorEqual (Some (JsArray pos)) (panoPosition s) (1 / 1000) \<or>
             \<not> quatEqual (Some (JsArray quat)) (Some (JsArray (cam_quat (panoCam s)))) (1 / 100))
      in if \<not> changed then s
         else s\<lparr>targetPanoPose := Some (pos, quat),
                isAnimating := True,
                syncStartTime := now1,
                source := Some Pano,
                lastSyncTime := now2,
                syncCount := syncCount s + 1,
                rafId := Some frame\<rparr>)"

definition smoothSyncForge ::
    "real \<Rightarrow> real \<Rightarrow> nat \<Rightarrow> real list \<Rightarrow> real list \<Rightarrow> 'a syncStore_scheme \<Rightarrow> 'a syncStore_scheme" where
  "smoothSyncForge now1 now2 frame pos quat s =
     (let changed =
            (\<not> vectorEqual (Some (JsArray pos)) (forgePosition s) (1 / 1000) \<or>
             \<not> quatEqual (Some (JsArray quat)) (Some (JsArray (cam_quat (forgeCam s)))) (1 / 100))
      in if \<not> changed then s
         else s\<lparr>targetForgePose := Some (pos, quat),
                isAnimating := True,
                syncStartTime := now1,
                source := Some Forge,
                lastSyncTime := now2,
                syncCount := syncCount s + 1,
                rafId := Some frame\<rparr>)"

text \<open>
  The pose delta is below the noise thresholds: the negation of \<^verbatim>\<open>changed\<close> in both
  reports, for the stored position and the stored camera quaternion of the reporting
  viewer.
\<close>

definition below_thresholds :: "real list \<Rightarrow> real list \<Rightarrow> jsvec option \<Rightarrow> real list \<Rightarrow> bool" where
  "below_thresholds pos quat stored_pos stored_quat =
     (vectorEqual (Some (JsArray pos)) stored_pos (1 / 1000) \<and>
      quatEqual (Some (JsArray quat)) (Some (JsArray stored_quat)) (1 / 100))"

section \<open>Boundary constraint (utils/camera\_transformation.js)\<close>

record point2 =
  p_x :: real
  p_y :: real

definition hypot2 :: "real \<Rightarrow> real \<Rightarrow> real" where
  "hypot2 a b = sqrt (a * a + b * b)"

definition BOUNDARY_POINTS :: "point2 list" where
  "BOUNDARY_POINTS =
     [\<lparr>p_x = 797 / 10, p_y = 395 / 10\<rparr>,
      \<lparr>p_x = 398 / 10, p_y = 398 / 10\<rparr>,
      \<lparr>p_x = 417 / 10, p_y = 1067 / 10\<rparr>,
      \<lparr>p_x = 632 / 10, p_y = 1072 / 10\<rparr>,
      \<lparr>p_x = 632 / 10, p_y = 1253 / 10\<rparr>,
      \<lparr>p_x = 797 / 10, p_y = 1273 / 10\<rparr>]"

definition BOUNDARY_MARGIN :: real where
  "BOUNDARY_MARGIN = 1 / 2"

text \<open>
  Ray casting. The loop runs \<open>i\<close> over the vertices with \<open>j\<close> the previous value of
  \<open>i\<close>, starting at the last vertex; the state is \<open>(j, isInside)\<close>. The division is
  only evaluated when the two ends of the edge lie on different sides of \<open>y\<close>.
\<close>

definition inside_step :: "real \<Rightarrow> real \<Rightarrow> point2 list \<Rightarrow> nat \<times> bool \<Rightarrow> nat \<Rightarrow> nat \<times> bool" where
  "inside_step x y points st i =
     (let j = fst st;
          xi = p_x (points ! i); yi = p_y (points ! i);
          xj = p_x (points ! j); yj = p_y (points ! j);
          intersect = ((yi > y) \<noteq> (yj > y) \<and> x < ((xj - xi) * (y - yi)) / (yj - yi) + xi)
      in (i, if intersect then \<not> snd st else snd st))"

definition isPointInsideBoundary :: "real \<Rightarrow> real \<Rightarrow> bool" where
  "isPointInsideBoundary x y =
     snd (foldl (inside_step x y BOUNDARY_POINTS) (length BOUNDARY_POINTS - 1, False)
            [0..<length BOUNDARY_POINTS])"

text \<open>
  The nearest point of the edge set. \<open>minDistance\<close> starts at \<^verbatim>\<open>Infinity\<close>, which is
  \<open>None\<close>; every distance is smaller than \<^verbatim>\<open>Infinity\<close>.
\<close>

record nearest =
  nearestX :: real
  nearestY :: real
  minDistance :: "real option"

definition nearest_step :: "real \<Rightarrow> real \<Rightarrow> point2 list \<Rightarrow> nearest \<Rightarrow> nat \<Rightarrow> nearest" where
  "nearest_step x y points st i =
     (let p1 = points ! i;
          p2 = points ! ((i + 1) mod length points);
          dx = p_x p2 - p_x p1;
          dy = p_y p2 - p_y p1;
          len2 = dx * dx + dy * dy
      in if len2 = 0 then st
         else
           (let t0 = ((x - p_x p1) * dx + (y - p_y p1) * dy) / len2;
                t = max 0 (min 1 t0);
                closestX = p_x p1 + t * dx;
                closestY = p_y p1 + t * dy;
                dist = hypot2 (x - closestX) (y - closestY)
            in if (case minDistance st of None \<Rightarrow> True | Some m \<Rightarrow> dist < m)
               then \<lparr>nearestX = closestX, nearestY = closestY, minDistance = Some dist\<rparr>
               else st))"

definition findNearestBoundaryPoint :: "real \<Rightarrow> real \<Rightarrow> nearest" where
  "findNearestBoundaryPoint x y =
     foldl (nearest_step x y BOUNDARY_POINTS)
       \<lparr>nearestX = x, nearestY = y, minDistance = None\<rparr> [0..<length BOUNDARY_POINTS]"

definition getPolygonCentroid :: point2 where
  "getPolygonCentroid =
     (let s = foldl (\<lambda>c p. \<lparr>p_x = p_x c + p_x p, p_y = p_y c + p_y p\<rparr>) \<lparr>p_x = 0, p_y = 0\<rparr> BOUNDARY_POINTS
      in \<lparr>p_x = p_x s / real (length BOUNDARY_POINTS), p_y = p_y s / real (length BOUNDARY_POINTS)\<rparr>)"

text \<open>
  The result of \<^verbatim>\<open>clampToBoundary\<close>: the field \<^verbatim>\<open>originalDistance\<close> is only present
  when the point was clamped (\<open>None\<close> when absent), and holds the distance found by
  \<^verbatim>\<open>findNearestBoundaryPoint\<close>.
\<close>

record clamped =
  c_x :: real
  c_y :: real
  wasClamped :: bool
  originalDistance :: "real option option"

definition clampToBoundary :: "real \<Rightarrow> real \<Rightarrow> clamped" where
  "clampToBoundary x y =
     (if isPointInsideBoundary x y
      then \<lparr>c_x = x, c_y = y, wasClamped = False, originalDistance = None\<rparr>
      else
        (let nearest = findNearestBoundaryPoint x y;
             centroid = getPolygonCentroid;
             dirX0 = p_x centroid - nearestX nearest;
             dirY0 = p_y centroid - nearestY nearest;
             dirLen = hypot2 dirX0 dirY0;
             dirX = (if dirLen > 0 then dirX0 / dirLen else dirX0);
             dirY = (if dirLen > 0 then dirY0 / dirLen else dirY0);
             clampedX = nearestX nearest + dirX * BOUNDARY_MARGIN;
             clampedY = nearestY nearest + dirY * BOUNDARY_MARGIN
         in \<lparr>c_x = clampedX, c_y = clampedY, wasClamped = True,
             originalDistance = Some (minDistance nearest)\<rparr>))"

section \<open>Vectors and 3x3 matrices\<close>

text \<open>
  A point given as an array \<^verbatim>\<open>[x, y, z]\<close> is a \<open>vec3\<close> as well. A 3x3 matrix (a 2-D
  array of numeric.js, a \<^verbatim>\<open>Matrix\<close> of ml-matrix, a \<^verbatim>\<open>THREE.Matrix3\<close>) is the record
  of its nine entries, \<open>mij\<close> being row \<open>i\<close>, column \<open>j\<close>.
\<close>

definition vec_zero :: vec3 where
  "vec_zero = \<lparr>vx = 0, vy = 0, vz = 0\<rparr>"

definition vec_add :: "vec3 \<Rightarrow> vec3 \<Rightarrow> vec3" where
  "vec_add a b = \<lparr>vx = vx a + vx b, vy = vy a + vy b, vz = vz a + vz b\<rparr>"

definition vec_sub :: "vec3 \<Rightarrow> vec3 \<Rightarrow> vec3" where
  "vec_sub a b = \<lparr>vx = vx a - vx b, vy = vy a - vy b, vz = vz a - vz b\<rparr>"

definition vec_scale :: "real \<Rightarrow> vec3 \<Rightarrow> vec3" where
  "vec_scale s a = \<lparr>vx = s * vx a, vy = s * vy a, vz = s * vz a\<rparr>"

definition lengthSq :: "vec3 \<Rightarrow> real" where
  "lengthSq a = vx a * vx a + vy a * vy a + vz a * vz a"

record mat3 =
  m11 :: real
  m12 :: real
  m13 :: real
  m21 :: real
  m22 :: real
  m23 :: real
  m31 :: real
  m32 :: real
  m33 :: real

definition mat_zero :: mat3 where
  "mat_zero = \<lparr>m11 = 0, m12 = 0, m13 = 0, m21 = 0, m22 = 0, m23 = 0, m31 = 0, m32 = 0, m33 = 0\<rparr>"

definition mat_identity :: mat3 where
  "mat_identity = \<lparr>m11 = 1, m12 = 0, m13 = 0, m21 = 0, m22 = 1, m23 = 0, m31 = 0, m32 = 0, m33 = 1\<rparr>"

definition mat_diag :: "real \<Rightarrow> real \<Rightarrow> real \<Rightarrow> mat3" where
  "mat_diag a b c = \<lparr>m11 = a, m12 = 0, m13 = 0, m21 = 0, m22 = b, m23 = 0, m31 = 0, m32 = 0, m33 = c\<rparr>"

definition mat_add :: "mat3 \<Rightarrow> mat3 \<Rightarrow> mat3" where
  "mat_add A B =
     \<lparr>m11 = m11 A + m11 B, m12 = m12 A + m12 B, m13 = m13 A + m13 B,
      m21 = m21 A + m21 B, m22 = m22 A + m22 B, m23 = m23 A + m23 B,
      m31 = m31 A + m31 B, m32 = m32 A + m32 B, m33 = m33 A + m33 B\<rparr>"

definition mat_mul :: "mat3 \<Rightarrow> mat3 \<Rightarrow> mat3" where
  "mat_mul A B =
     \<lparr>m11 = m11 A * m11 B + m12 A * m21 B + m13 A * m31 B,
      m12 = m11 A * m12 B + m12 A * m22 B + m13 A * m32 B,
      m13 = m11 A * m13 B + m12 A * m23 B + m13 A * m33 B,
      m21 = m21 A * m11 B + m22 A * m21 B + m23 A * m31 B,
      m22 = m21 A * m12 B + m22 A * m22 B + m23 A * m32 B,
      m23 = m21 A * m13 B + m22 A * m23 B + m23 A * m33 B,
      m31 = m31 A * m11 B + m32 A * m21 B + m33 A * m31 B,
      m32 = m31 A * m12 B + m32 A * m22 B + m33 A * m32 B,
      m33 = m31 A * m13 B + m32 A * m23 B + m33 A * m33 B\<rparr>"

definition mat_transpose :: "mat3 \<Rightarrow> mat3" where
  "mat_transpose A =
     \<lparr>m11 = m11 A, m12 = m21 A, m13 = m31 A,
      m21 = m12 A, m22 = m22 A, m23 = m32 A,
      m31 = m13 A, m32 = m23 A, m33 = m33 A\<rparr>"

definition mat_det :: "mat3 \<Rightarrow> real" where
  "mat_det A =
     m11 A * (m22 A * m33 A - m23 A * m32 A)
     - m12 A * (m21 A * m33 A - m23 A * m31 A)
     + m13 A * (m21 A * m32 A - m22 A * m31 A)"

definition mat_vec :: "mat3 \<Rightarrow> vec3 \<Rightarrow> vec3" where
  "mat_vec A v =
     \<lparr>vx = m11 A * vx v + m12 A * vy v + m13 A * vz v,
      vy = m21 A * vx v + m22 A * vy v + m23 A * vz v,
      vz = m31 A * vx v + m32 A * vy v + m33 A * vz v\<rparr>"

text \<open>The outer product \<open>a b\<^sup>T\<close>: entry \<open>(r, c)\<close> is \<open>a[r] * b[c]\<close>.\<close>

definition outer :: "vec3 \<Rightarrow> vec3 \<Rightarrow> mat3" where
  "outer a b =
     \<lparr>m11 = vx a * vx b, m12 = vx a * vy b, m13 = vx a * vz b,
      m21 = vy a * vx b, m22 = vy a * vy b, m23 = vy a * vz b,
      m31 = vz a * vx b, m32 = vz a * vy b, m33 = vz a * vz b\<rparr>"

text \<open>
  The singular value decomposition is a library call (\<^verbatim>\<open>new SVD(H)\<close> of ml-matrix,
  \<^verbatim>\<open>numeric.svd(H)\<close> of numeric.js): it is a parameter of the solvers, a function from
  the matrix to the record of \<open>U\<close>, the array \<open>S\<close> of singular values and \<open>V\<close>.
  \<open>svd_valid H sv\<close> is what the libraries promise for a 3x3 matrix:
  \<open>H = U diag(S) V\<^sup>T\<close> with orthonormal \<open>U\<close>, \<open>V\<close> and non-negative singular values.
\<close>

record svd =
  svd_U :: mat3
  svd_S :: "real list"
  svd_V :: mat3

definition orthonormal :: "mat3 \<Rightarrow> bool" where
  "orthonormal A \<longleftrightarrow>
     mat_mul (mat_transpose A) A = mat_identity \<and> mat_mul A (mat_transpose A) = mat_identity"

definition svd_valid :: "mat3 \<Rightarrow> svd \<Rightarrow> bool" where
  "svd_valid H sv \<longleftrightarrow>
     orthonormal (svd_U sv) \<and> orthonormal (svd_V sv) \<and>
     length (svd_S sv) = 3 \<and> 0 \<le> svd_S sv ! 0 \<and> 0 \<le> svd_S sv ! 1 \<and> 0 \<le> svd_S sv ! 2 \<and>
     H = mat_mul (mat_mul (svd_U sv) (mat_diag (svd_S sv ! 0) (svd_S sv ! 1) (svd_S sv ! 2)))
           (mat_transpose (svd_V sv))"

section \<open>Calibration (utils/calibratePanoToForge.js)\<close>

datatype calib_error = TypeError | NeedThreePoints | NumericNotLoaded

record calibration =
  cal_scale :: real
  cal_rotation :: mat3
  cal_rotationMatrix :: mat3
  cal_translation :: vec3
  cal_maxError :: "real option"
  cal_meanError :: real

definition flipX :: "vec3 \<Rightarrow> vec3" where
  "flipX p = \<lparr>vx = - vx p, vy = vy p, vz = vz p\<rparr>"

text \<open>
  \<^verbatim>\<open>refs.reduce((acc, p) => acc.map((v, i) => v + p[i]), [0, 0, 0]).map(v => v / n)\<close>:
  the divisor is always the number of panorama points.
\<close>

definition calib_centroid :: "nat \<Rightarrow> vec3 list \<Rightarrow> vec3" where
  "calib_centroid n refs =
     (let s = foldl vec_add vec_zero refs
      in \<lparr>vx = vx s / real n, vy = vy s / real n, vz = vz s / real n\<rparr>)"

definition calib_rms :: "nat \<Rightarrow> vec3 list \<Rightarrow> real" where
  "calib_rms n centered =
     sqrt (foldl (\<lambda>sum p. sum + vx p * vx p + vy p * vy p + vz p * vz p) 0 centered / real n)"

text \<open>
  The covariance loop runs over the panorama points and reads \<^verbatim>\<open>revitCentered[i][row]\<close>:
  with fewer target points than panorama points this read of \<^verbatim>\<open>undefined\<close> throws a
  TypeError. \<open>H[row][col]\<close> accumulates \<open>panoCentered[i][col] * revitCentered[i][row]\<close>.
\<close>

fun calib_H_loop :: "mat3 \<Rightarrow> vec3 list \<Rightarrow> vec3 list \<Rightarrow> calib_error + mat3" where
  "calib_H_loop H [] revitCentered = Inr H"
| "calib_H_loop H (p # panoCentered) [] = Inl TypeError"
| "calib_H_loop H (p # panoCentered) (r # revitCentered) =
     calib_H_loop (mat_add H (outer r p)) panoCentered revitCentered"

definition calib_H :: "vec3 list \<Rightarrow> vec3 list \<Rightarrow> calib_error + mat3" where
  "calib_H panoRefs revitRefs =
     (let n = length panoRefs;
          panoRefsFlipped = map flipX panoRefs;
          panoCentroid = calib_centroid n panoRefsFlipped;
          revitCentroid = calib_centroid n revitRefs;
          panoCentered = map (\<lambda>p. vec_sub p panoCentroid) panoRefsFlipped;
          revitCentered = map (\<lambda>p. vec_sub p revitCentroid) revitRefs
      in calib_H_loop mat_zero panoCentered revitCentered)"

definition negate_column2 :: "mat3 \<Rightarrow> mat3" where
  "negate_column2 V = V\<lparr>m13 := - m13 V, m23 := - m23 V, m33 := - m33 V\<rparr>"

definition calib_transformed :: "real \<Rightarrow> mat3 \<Rightarrow> vec3 \<Rightarrow> vec3 \<Rightarrow> vec3" where
  "calib_transformed scale rotation translation p =
     vec_add (vec_scale scale (mat_vec rotation p)) translation"

definition calib_point_error :: "real \<Rightarrow> mat3 \<Rightarrow> vec3 \<Rightarrow> vec3 \<times> vec3 \<Rightarrow> real" where
  "calib_point_error scale rotation translation pr =
     (let transformed = calib_transformed scale rotation translation (fst pr);
          d = vec_sub (snd pr) transformed
      in sqrt ((vx d)\<^sup>2 + (vy d)\<^sup>2 + (vz d)\<^sup>2))"

definition calculateCalibration :: "(mat3 \<Rightarrow> svd) \<Rightarrow> vec3 list \<Rightarrow> vec3 list \<Rightarrow> calib_error + calibration" where
  "calculateCalibration svdf panoRefs revitRefs =
     (let n = length panoRefs;
          panoRefsFlipped = map flipX panoRefs;
          panoCentroid = calib_centroid n panoRefsFlipped;
          revitCentroid = calib_centroid n revitRefs;
          panoCentered = map (\<lambda>p. vec_sub p panoCentroid) panoRefsFlipped;
          revitCentered = map (\<lambda>p. vec_sub p revitCentroid) revitRefs;
          panoRMS = calib_rms n panoCentered;
          revitRMS = calib_rms n revitCentered;
          scale = revitRMS / panoRMS
      in case calib_H panoRefs revitRefs of
           Inl e \<Rightarrow> Inl e
         | Inr H \<Rightarrow>
             (let sv = svdf H;
                  U = svd_U sv;
                  V = svd_V sv;
                  rotationMatrix0 = mat_mul V (mat_transpose U);
                  rotation0 = mat_transpose rotationMatrix0;
                  det = mat_det rotation0;
                  V1 = (if det < 0 then negate_column2 V else V);
                  rotationMatrix = (if det < 0 then mat_mul V1 (mat_transpose U) else rotationMatrix0);
                  rotation = (if det < 0 then mat_transpose rotationMatrix else rotation0);
                  translation = vec_sub revitCentroid (vec_scale scale (mat_vec rotation panoCentroid));
                  errors = map (calib_point_error scale rotation translation)
                             (zip panoRefsFlipped revitRefs);
                  maxError = (if errors = [] then None else Some (foldl max (hd errors) (tl errors)));
                  meanError = foldl (+) 0 errors / real n
              in Inr \<lparr>cal_scale = scale, cal_rotation = rotation, cal_rotationMatrix = rotationMatrix,
                       cal_translation = translation, cal_maxError = maxError,
                       cal_meanError = meanError\<rparr>))"

definition panoToForge :: "vec3 \<Rightarrow> calibration \<Rightarrow> vec3" where
  "panoToForge panoPoint cal =
     (let flippedPoint = \<lparr>vx = - vx panoPoint, vy = vy panoPoint, vz = vz panoPoint\<rparr>;
          rotated = mat_vec (cal_rotation cal) flippedPoint;
          scaled = vec_scale (cal_scale cal) rotated
      in vec_add scaled (cal_translation cal))"

definition forgeToPano :: "vec3 \<Rightarrow> calibration \<Rightarrow> vec3" where
  "forgeToPano forgePoint cal =
     (let forgeVec = vec_sub forgePoint (cal_translation cal);
          panoVec = vec_scale (1 / cal_scale cal)
                      (mat_vec (mat_transpose (cal_rotationMatrix cal)) forgeVec)
      in \<lparr>vx = - vx panoVec, vy = vy panoVec, vz = vz panoVec\<rparr>)"

section \<open>Umeyama calibration (src/lib/forge\_helpers.js)\<close>

text \<open>
  A \<^verbatim>\<open>THREE.Matrix3\<close> keeps its entries in column-major order: \<^verbatim>\<open>fromArray\<close> and
  \<^verbatim>\<open>toArray\<close> convert between the matrix and that array of nine numbers.
\<close>

definition Matrix3_fromArray :: "real list \<Rightarrow> mat3" where
  "Matrix3_fromArray e =
     \<lparr>m11 = e ! 0, m12 = e ! 3, m13 = e ! 6,
      m21 = e ! 1, m22 = e ! 4, m23 = e ! 7,
      m31 = e ! 2, m32 = e ! 5, m33 = e ! 8\<rparr>"

definition Matrix3_toArray :: "mat3 \<Rightarrow> real list" where
  "Matrix3_toArray A = [m11 A, m21 A, m31 A, m12 A, m22 A, m32 A, m13 A, m23 A, m33 A]"

definition Vector3_toArray :: "vec3 \<Rightarrow> real list" where
  "Vector3_toArray v = [vx v, vy v, vz v]"

record transform =
  tr_R :: "real list"
  tr_scale :: real
  tr_t :: "real list"
  tr_M :: "real list"
  tr_centroidA :: "real list"
  tr_centroidB :: "real list"

text \<open>
  \<^verbatim>\<open>centroid.add(p)\<close> for every point, then \<^verbatim>\<open>divideScalar(n)\<close>, which multiplies by
  \<open>1 / n\<close>.
\<close>

definition ct_centroid :: "nat \<Rightarrow> vec3 list \<Rightarrow> vec3" where
  "ct_centroid n points = vec_scale (1 / real n) (foldl vec_add vec_zero points)"

definition ct_H :: "vec3 list \<Rightarrow> vec3 list \<Rightarrow> mat3" where
  "ct_H revitPoints panoPoints =
     (let n = length revitPoints;
          centroidA = ct_centroid n revitPoints;
          centroidB = ct_centroid n panoPoints
      in foldl (\<lambda>H ab. mat_add H (outer (vec_sub (fst ab) centroidA) (vec_sub (snd ab) centroidB)))
           mat_zero (zip revitPoints panoPoints))"

definition ct_sumSqB :: "vec3 list \<Rightarrow> vec3 \<Rightarrow> real" where
  "ct_sumSqB panoPoints centroidB =
     foldl (\<lambda>sumSqB p. sumSqB + lengthSq (vec_sub p centroidB)) 0 panoPoints"

text \<open>
  \<open>numeric\<close> is \<^verbatim>\<open>window.numeric\<close>: \<open>None\<close> when the library is not loaded, else its
  \<^verbatim>\<open>svd\<close>. The two \<^verbatim>\<open>throw\<close> statements are the two \<open>Inl\<close> results.
\<close>

definition computeTransform :: "(mat3 \<Rightarrow> svd) option \<Rightarrow> vec3 list \<Rightarrow> vec3 list \<Rightarrow> calib_error + transform" where
  "computeTransform numeric revitPoints panoPoints =
     (if length revitPoints \<noteq> length panoPoints \<or> length revitPoints < 3 then Inl NeedThreePoints
      else
        (case numeric of
           None \<Rightarrow> Inl NumericNotLoaded
         | Some svdf \<Rightarrow>
             (let n = length revitPoints;
                  centroidA = ct_centroid n revitPoints;
                  centroidB = ct_centroid n panoPoints;
                  H = ct_H revitPoints panoPoints;
                  sv = svdf H;
                  U = Matrix3_fromArray
                        [m11 (svd_U sv), m21 (svd_U sv), m31 (svd_U sv),
                         m12 (svd_U sv), m22 (svd_U sv), m32 (svd_U sv),
                         m13 (svd_U sv), m23 (svd_U sv), m33 (svd_U sv)];
                  V = Matrix3_fromArray
                        [m11 (svd_V sv), m21 (svd_V sv), m31 (svd_V sv),
                         m12 (svd_V sv), m22 (svd_V sv), m32 (svd_V sv),
                         m13 (svd_V sv), m23 (svd_V sv), m33 (svd_V sv)];
                  detProd = mat_det U * mat_det V;
                  S = (if detProd < 0 then mat_diag 1 1 (- 1) else mat_identity);
                  R = mat_mul (mat_mul U S) (mat_transpose V);
                  traceSigma = foldl (+) 0 (svd_S sv);
                  sumSqB = ct_sumSqB panoPoints centroidB;
                  scale = traceSigma / (sumSqB + 1 / 10 ^ 12);
                  t = vec_sub centroidA (mat_vec R (vec_scale scale centroidB));
                  M = [scale * m11 R, scale * m21 R, scale * m31 R, 0,
                       scale * m12 R, scale * m22 R, scale * m32 R, 0,
                       scale * m13 R, scale * m23 R, scale * m33 R, 0,
                       vx t, vy t, vz t, 1]
              in Inr \<lparr>tr_R = Matrix3_toArray R, tr_scale = scale, tr_t = Vector3_toArray t,
                       tr_M = M, tr_centroidA = Vector3_toArray centroidA,
                       tr_centroidB = Vector3_toArray centroidB\<rparr>)))"

section \<open>Statistics of a point cloud, as the specification writes them\<close>

text \<open>
  The centroid, the sum of squared distances to the centroid, and the cross-covariance
  matrix \<open>\<Sum> (a\<^sub>i - centroid\<^sub>A) (b\<^sub>i - centroid\<^sub>B)\<^sup>T\<close> of two clouds, written with sums over the
  lists. The solvers compute them with loops; the theorems below relate the two.
\<close>

definition centroid :: "vec3 list \<Rightarrow> vec3" where
  "centroid ps =
     \<lparr>vx = (\<Sum>p\<leftarrow>ps. vx p) / real (length ps),
      vy = (\<Sum>p\<leftarrow>ps. vy p) / real (length ps),
      vz = (\<Sum>p\<leftarrow>ps. vz p) / real (length ps)\<rparr>"

definition sum_sq_centered :: "vec3 list \<Rightarrow> real" where
  "sum_sq_centered ps = (\<Sum>p\<leftarrow>ps. lengthSq (vec_sub p (centroid ps)))"

definition covariance_about :: "vec3 \<Rightarrow> vec3 \<Rightarrow> (vec3 \<times> vec3) list \<Rightarrow> mat3" where
  "covariance_about ca cb ab =
     \<lparr>m11 = (\<Sum>(a, b)\<leftarrow>ab. (vx a - vx ca) * (vx b - vx cb)),
      m12 = (\<Sum>(a, b)\<leftarrow>ab. (vx a - vx ca) * (vy b - vy cb)),
      m13 = (\<Sum>(a, b)\<leftarrow>ab. (vx a - vx ca) * (vz b - vz cb)),
      m21 = (\<Sum>(a, b)\<leftarrow>ab. (vy a - vy ca) * (vx b - vx cb)),
      m22 = (\<Sum>(a, b)\<leftarrow>ab. (vy a - vy ca) * (vy b - vy cb)),
      m23 = (\<Sum>(a, b)\<leftarrow>ab. (vy a - vy ca) * (vz b - vz cb)),
      m31 = (\<Sum>(a, b)\<leftarrow>ab. (vz a - vz ca) * (vx b - vx cb)),
      m32 = (\<Sum>(a, b)\<leftarrow>ab. (vz a - vz ca) * (vy b - vy cb)),
      m33 = (\<Sum>(a, b)\<leftarrow>ab. (vz a - vz ca) * (vz b - vz cb))\<rparr>"

definition cross_covariance :: "vec3 list \<Rightarrow> vec3 list \<Rightarrow> mat3" where
  "cross_covariance as bs = covariance_about (centroid as) (centroid bs) (zip as bs)"

text \<open>
  A cloud is not collinear when three of its points span a triangle: the cross product
  of two of its difference vectors is not zero.
\<close>

definition cross :: "vec3 \<Rightarrow> vec3 \<Rightarrow> vec3" where
  "cross a b =
     \<lparr>vx = vy a * vz b - vz a * vy b, vy = vz a * vx b - vx a * vz b, vz = vx a * vy b - vy a * vx b\<rparr>"

definition non_collinear :: "vec3 list \<Rightarrow> bool" where
  "non_collinear ps \<longleftrightarrow>
     (\<exists>p\<in>set ps. \<exists>q\<in>set ps. \<exists>r\<in>set ps. cross (vec_sub q p) (vec_sub r p) \<noteq> vec_zero)"

section \<open>Concrete correspondence sets\<close>

text \<open>
  Where the decomposition of one particular matrix is known, the library call is stood
  in for by the function that answers with that decomposition.
\<close>

definition svd_const :: "svd \<Rightarrow> mat3 \<Rightarrow> svd" where
  "svd_const sv H = sv"

text \<open>The rotation by 90 degrees about the third axis.\<close>

definition rot90z :: mat3 where
  "rot90z = \<lparr>m11 = 0, m12 = - 1, m13 = 0, m21 = 1, m22 = 0, m23 = 0, m31 = 0, m32 = 0, m33 = 1\<rparr>"

text \<open>
  Six panorama reference points on the axes, as entered (before the X flip) and flipped.
\<close>

definition axis_points :: "vec3 list" where
  "axis_points =
     [\<lparr>vx = 1, vy = 0, vz = 0\<rparr>, \<lparr>vx = - 1, vy = 0, vz = 0\<rparr>,
      \<lparr>vx = 0, vy = 1, vz = 0\<rparr>, \<lparr>vx = 0, vy = - 1, vz = 0\<rparr>,
      \<lparr>vx = 0, vy = 0, vz = 1\<rparr>, \<lparr>vx = 0, vy = 0, vz = - 1\<rparr>]"

definition axis_points_entered :: "vec3 list" where
  "axis_points_entered =
     [\<lparr>vx = - 1, vy = 0, vz = 0\<rparr>, \<lparr>vx = 1, vy = 0, vz = 0\<rparr>,
      \<lparr>vx = 0, vy = 1, vz = 0\<rparr>, \<lparr>vx = 0, vy = - 1, vz = 0\<rparr>,
      \<lparr>vx = 0, vy = 0, vz = 1\<rparr>, \<lparr>vx = 0, vy = 0, vz = - 1\<rparr>]"

text \<open>
  Target points that are an exact similarity image of \<open>axis_points\<close>: rotated by
  \<open>rot90z\<close>, scaled by 2 and moved by \<open>(10, 20, 0)\<close>. The cross-covariance is
  \<open>4 rot90z\<close>, with the decomposition \<open>U = rot90z\<close>, \<open>S = [4, 4, 4]\<close>, \<open>V = I\<close>.
\<close>

definition similar_targets :: "vec3 list" where
  "similar_targets =
     [\<lparr>vx = 10, vy = 22, vz = 0\<rparr>, \<lparr>vx = 10, vy = 18, vz = 0\<rparr>,
      \<lparr>vx = 8, vy = 20, vz = 0\<rparr>, \<lparr>vx = 12, vy = 20, vz = 0\<rparr>,
      \<lparr>vx = 10, vy = 20, vz = 2\<rparr>, \<lparr>vx = 10, vy = 20, vz = - 2\<rparr>]"

definition similar_svd :: svd where
  "similar_svd = \<lparr>svd_U = rot90z, svd_S = [4, 4, 4], svd_V = mat_identity\<rparr>"

text \<open>
  Target points that are stretched by 2 along one axis before the rotation, so that no
  similarity maps the clouds onto each other exactly. The cross-covariance is
  \<open>rot90z diag(4, 2, 2)\<close>.
\<close>

definition stretched_targets :: "vec3 list" where
  "stretched_targets =
     [\<lparr>vx = 0, vy = 2, vz = 0\<rparr>, \<lparr>vx = 0, vy = - 2, vz = 0\<rparr>,
      \<lparr>vx = - 1, vy = 0, vz = 0\<rparr>, \<lparr>vx = 1, vy = 0, vz = 0\<rparr>,
      \<lparr>vx = 0, vy = 0, vz = 1\<rparr>, \<lparr>vx = 0, vy = 0, vz = - 1\<rparr>]"

definition stretched_svd :: svd where
  "stretched_svd = \<lparr>svd_U = rot90z, svd_S = [4, 2, 2], svd_V = mat_identity\<rparr>"

text \<open>
  Target points at the corners of a triangle, each corner matched with two opposite
  axis points: both clouds span a plane at least, and the cross-covariance is the zero
  matrix.
\<close>

definition triangle_targets :: "vec3 list" where
  "triangle_targets =
     [\<lparr>vx = 1, vy = 0, vz = 0\<rparr>, \<lparr>vx = 1, vy = 0, vz = 0\<rparr>,
      \<lparr>vx = 0, vy = 1, vz = 0\<rparr>, \<lparr>vx = 0, vy = 1, vz = 0\<rparr>,
      \<lparr>vx = - 1, vy = - 1, vz = 0\<rparr>, \<lparr>vx = - 1, vy = - 1, vz = 0\<rparr>]"

definition zero_svd :: svd where
  "zero_svd = \<lparr>svd_U = mat_identity, svd_S = [0, 0, 0], svd_V = mat_identity\<rparr>"

text \<open>
  The calibration of the similar correspondence set: scale 2, rotation \<open>rot90z\<close>,
  translation \<open>(10, 20, 0)\<close>, no residual error. \<^verbatim>\<open>rotationMatrix\<close> is the ml-matrix
  product \<open>V U\<^sup>T\<close>, the transpose of \<^verbatim>\<open>rotation\<close>.
\<close>

definition similar_calibration :: calibration where
  "similar_calibration =
     \<lparr>cal_scale = 2, cal_rotation = rot90z, cal_rotationMatrix = mat_transpose rot90z,
      cal_translation = \<lparr>vx = 10, vy = 20, vz = 0\<rparr>, cal_maxError = Some 0, cal_meanError = 0\<rparr>"

section \<open>Orientation transforms (utils/camera\_transformation.js, ForgeViewer.jsx)\<close>

text \<open>A quaternion is the array \<^verbatim>\<open>[x, y, z, w]\<close>.\<close>

record quat =
  qx :: real
  qy :: real
  qz :: real
  qw :: real

definition QUAT_TRANSFORM :: quat where
  "QUAT_TRANSFORM =
     \<lparr>qx = 66681372 / 10 ^ 8, qy = - 9451034 / 10 ^ 8, qz = - 199205 / 10 ^ 8, qw = 73920450 / 10 ^ 8\<rparr>"

definition qMul :: "quat \<Rightarrow> quat \<Rightarrow> quat" where
  "qMul a b =
     \<lparr>qx = qw a * qx b + qx a * qw b + qy a * qz b - qz a * qy b,
      qy = qw a * qy b - qx a * qz b + qy a * qw b + qz a * qx b,
      qz = qw a * qz b + qx a * qy b - qy a * qx b + qz a * qw b,
      qw = qw a * qw b - qx a * qx b - qy a * qy b - qz a * qz b\<rparr>"

definition hypot4 :: "real \<Rightarrow> real \<Rightarrow> real \<Rightarrow> real \<Rightarrow> real" where
  "hypot4 a b c d = sqrt (a * a + b * b + c * c + d * d)"

definition qNormalize :: "quat \<Rightarrow> quat" where
  "qNormalize q =
     (let m = hypot4 (qx q) (qy q) (qz q) (qw q)
      in \<lparr>qx = qx q / m, qy = qy q / m, qz = qz q / m, qw = qw q / m\<rparr>)"

definition qInverse :: "quat \<Rightarrow> quat" where
  "qInverse q =
     (let len2 = qx q * qx q + qy q * qy q + qz q * qz q + qw q * qw q
      in \<lparr>qx = - qx q / len2, qy = - qy q / len2, qz = - qz q / len2, qw = qw q / len2\<rparr>)"

definition transformQuaternion :: "real \<Rightarrow> real \<Rightarrow> real \<Rightarrow> real \<Rightarrow> quat" where
  "transformQuaternion x y z w = qNormalize (qMul QUAT_TRANSFORM \<lparr>qx = x, qy = y, qz = z, qw = w\<rparr>)"

text \<open>\<^verbatim>\<open>Math.SQRT1_2\<close> is the square root of one half.\<close>

definition SQRT1_2 :: real where
  "SQRT1_2 = sqrt (1 / 2)"

definition Q_PITCH_DOWN_90 :: quat where
  "Q_PITCH_DOWN_90 = \<lparr>qx = SQRT1_2, qy = 0, qz = 0, qw = SQRT1_2\<rparr>"

definition Q_180_Z :: quat where
  "Q_180_Z = \<lparr>qx = 0, qy = 0, qz = 1, qw = 0\<rparr>"

definition transformQuaternionMirrored :: "real \<Rightarrow> real \<Rightarrow> real \<Rightarrow> real \<Rightarrow> quat" where
  "transformQuaternionMirrored x y z w =
     (let normalResult = transformQuaternion x y z w
      in qNormalize (qMul Q_180_Z normalResult))"

definition reverseTransform :: "real \<Rightarrow> real \<Rightarrow> real \<Rightarrow> real \<Rightarrow> quat" where
  "reverseTransform x y z w =
     (let QT_INV = qInverse QUAT_TRANSFORM
      in qNormalize (qMul QT_INV \<lparr>qx = x, qy = y, qz = z, qw = w\<rparr>))"

definition forgeToPanoQuaternion :: "real \<Rightarrow> real \<Rightarrow> real \<Rightarrow> real \<Rightarrow> quat" where
  "forgeToPanoQuaternion x y z w =
     (let QT_INV = qInverse QUAT_TRANSFORM;
          step1 = qNormalize (qMul QT_INV \<lparr>qx = x, qy = y, qz = z, qw = w\<rparr>);
          invPitch = qInverse Q_PITCH_DOWN_90;
          step2 = qNormalize (qMul invPitch step1);
          Q_180_Z_INV = qInverse Q_180_Z
      in qNormalize (qMul Q_180_Z_INV step2))"

text \<open>
  \<^verbatim>\<open>THREE.Quaternion.multiply\<close>: \<^verbatim>\<open>a.multiply(b)\<close> replaces \<open>a\<close> by the product
  \<open>a b\<close>, computed by \<^verbatim>\<open>multiplyQuaternions(a, b)\<close>.
\<close>

definition Quaternion_multiply :: "quat \<Rightarrow> quat \<Rightarrow> quat" where
  "Quaternion_multiply a b =
     \<lparr>qx = qx a * qw b + qw a * qx b + qy a * qz b - qz a * qy b,
      qy = qy a * qw b + qw a * qy b + qz a * qx b - qx a * qz b,
      qz = qz a * qw b + qw a * qz b + qx a * qy b - qy a * qx b,
      qw = qw a * qw b - qx a * qx b - qy a * qy b - qz a * qz b\<rparr>"

text \<open>
  The rotation part of the panorama-to-Forge synchronisation in \<^verbatim>\<open>ForgeViewer\<close>: the
  calibration quaternion is applied by \<^verbatim>\<open>transformQuaternion\<close>, then the camera
  quaternion is multiplied by \<^verbatim>\<open>pitchDown90\<close>.
\<close>

definition forgeViewerRotation :: "real \<Rightarrow> real \<Rightarrow> real \<Rightarrow> real \<Rightarrow> quat" where
  "forgeViewerRotation x y z w =
     (let t = transformQuaternion x y z w;
          pitchDown90 = \<lparr>qx = SQRT1_2, qy = 0, qz = 0, qw = SQRT1_2\<rparr>
      in Quaternion_multiply t pitchDown90)"

text \<open>
  The forward pipeline with all three operators in the order calibration quaternion,
  pitch, half turn about the vertical axis: the two steps of \<^verbatim>\<open>ForgeViewer\<close> followed
  by the half-turn step of \<^verbatim>\<open>transformQuaternionMirrored\<close>. The source has no single
  function for it.
\<close>

definition forwardOrientation :: "real \<Rightarrow> real \<Rightarrow> real \<Rightarrow> real \<Rightarrow> quat" where
  "forwardOrientation x y z w = qNormalize (qMul Q_180_Z (forgeViewerRotation x y z w))"

text \<open>
  The same three operators, each applied from the left as the helpers of
  camera\_transformation.js do, in the opposite order: half turn, pitch, calibration
  quaternion.
\<close>

definition oppositeOrientation :: "real \<Rightarrow> real \<Rightarrow> real \<Rightarrow> real \<Rightarrow> quat" where
  "oppositeOrientation x y z w =
     (let a = qNormalize (qMul Q_180_Z \<lparr>qx = x, qy = y, qz = z, qw = w\<rparr>);
          b = qNormalize (qMul Q_PITCH_DOWN_90 a)
      in qNormalize (qMul QUAT_TRANSFORM b))"

text \<open>
  Calling a function of four numbers with the components of a quaternion, as in
  \<^verbatim>\<open>const [qx, qy, qz, qw] = quat; f(qx, qy, qz, qw)\<close>.
\<close>

definition on_quat :: "(real \<Rightarrow> real \<Rightarrow> real \<Rightarrow> real \<Rightarrow> quat) \<Rightarrow> quat \<Rightarrow> quat" where
  "on_quat f q = f (qx q) (qy q) (qz q) (qw q)"

text \<open>
  For the proofs: the multiple \<open>c q\<close> of a quaternion, its conjugate, its squared norm,
  and the relation of two quaternions that differ by a positive factor. Normalising
  removes positive factors, so the pipelines can be compared on representatives with
  rational components.
\<close>

definition qScale :: "real \<Rightarrow> quat \<Rightarrow> quat" where
  "qScale c q = \<lparr>qx = c * qx q, qy = c * qy q, qz = c * qz q, qw = c * qw q\<rparr>"

definition qConj :: "quat \<Rightarrow> quat" where
  "qConj q = \<lparr>qx = - qx q, qy = - qy q, qz = - qz q, qw = qw q\<rparr>"

definition qNorm2 :: "quat \<Rightarrow> real" where
  "qNorm2 q = qx q * qx q + qy q * qy q + qz q * qz q + qw q * qw q"

definition same_direction :: "quat \<Rightarrow> quat \<Rightarrow> bool" where
  "same_direction p q \<longleftrightarrow> (\<exists>c>0. p = qScale c q)"

definition unit_pitch :: quat where
  "unit_pitch = \<lparr>qx = 1, qy = 0, qz = 0, qw = 1\<rparr>"

text \<open>
  What \<^verbatim>\<open>forgeToPanoQuaternion\<close> computes before the last normalisation, on
  representatives: the conjugates of the calibration quaternion, of the pitch and of the
  half turn, multiplied on from the left in this order.
\<close>

definition reverse_product :: "quat \<Rightarrow> quat" where
  "reverse_product r = qMul (qConj Q_180_Z) (qMul (qConj unit_pitch) (qMul (qConj QUAT_TRANSFORM) r))"

section \<open>Properties of the Kalman filter\<close>

text \<open>
  Claim C10. For every measurement \<open>m\<close>, the first call of \<^verbatim>\<open>update(m)\<close> on a freshly
  constructed filter returns exactly \<open>m\<close>: the first sample initialises the state, the
  innovation \<open>m - x\<close> of the correction step is then zero, and the estimate stays \<open>m\<close>.
  After the call the filter is marked initialised. The gain divides by
  \<open>1 + processNoise + measurementNoise\<close>, which must not be zero (it never is for
  noise parameters that are not negative); the theorem does not use the value that a
  division by zero has in HOL.
\<close>

theorem kalman_first_update_returns_measurement:
  assumes "1 + pn + mn \<noteq> 0"
  shows "fst (kalman_update m (kalman_constructor pn mn)) = m \<and>
         initd (snd (kalman_update m (kalman_constructor pn mn))) \<and>
         kf_x (snd (kalman_update m (kalman_constructor pn mn))) = m"
  by (simp add: kalman_update_def kalman_constructor_def kalman_init_def Let_def)

theorem kalman_first_update_returns_measurement_witness:
  "(1 + 1 / 1000 + 1 / 100 :: real) \<noteq> 0 \<and>
   fst (kalman_update \<lparr>vx = 1, vy = 2, vz = 3\<rparr> (kalman_constructor (1 / 1000) (1 / 100))) =
     \<lparr>vx = 1, vy = 2, vz = 3\<rparr> \<and>
   initd (snd (kalman_update \<lparr>vx = 1, vy = 2, vz = 3\<rparr> (kalman_constructor (1 / 1000) (1 / 100))))"
proof -
  have h: "(1 + 1 / 1000 + 1 / 100 :: real) \<noteq> 0" by simp
  show ?thesis
    using h kalman_first_update_returns_measurement[OF h, of "\<lparr>vx = 1, vy = 2, vz = 3\<rparr>"]
    by simp
qed

section \<open>Properties of the path helpers\<close>

lemma length_fix_loop:
  "length (fix_loop minDist rnd fixed k rest) = length fixed + length rest"
  by (induction rest arbitrary: fixed k) (simp_all add: Let_def)

lemma length_fixOverlappingPoints:
  "length (fixOverlappingPoints rnd points minDist) = length points"
  by (cases points) (simp_all add: fixOverlappingPoints_def length_fix_loop)

lemma length_savitzkyGolay:
  "length (savitzkyGolay points windowSize polyOrder) = length points"
  by (simp add: savitzkyGolay_def Let_def split: option.splits)

text \<open>
  Claim C8. Every path-conditioning stage keeps the number of samples: the output of
  \<^verbatim>\<open>savitzkyGolay\<close> has exactly the length of its input (on every path: the
  convolution, the all-zero output of a negative window, and the fallback of the
  \<^verbatim>\<open>catch\<close> block), and so has the output of \<^verbatim>\<open>fixOverlappingPoints\<close>, whatever
  the random directions are.
\<close>

theorem path_stages_preserve_length:
  "length (savitzkyGolay points windowSize polyOrder) = length points \<and>
   length (fixOverlappingPoints rnd points minDist) = length points"
  by (simp add: length_savitzkyGolay length_fixOverlappingPoints)

lemma hypot3_axis: "hypot3 a 0 0 = \<bar>a\<bar>"
  by (simp add: hypot3_def)

text \<open>
  Two coincident points are replaced by two points along a random direction that is not
  normalised: its components lie in \<open>[-0.5, 0.5)\<close>, so it is shorter than 1 and the
  two new points are closer than the threshold, whatever numbers are drawn.
\<close>

lemma hypot3_scaled: "0 \<le> m \<Longrightarrow> hypot3 (m * a) (m * b) (m * c) = m * hypot3 a b c"
proof -
  assume m: "0 \<le> m"
  have "m * a * (m * a) + m * b * (m * b) + m * c * (m * c) = m\<^sup>2 * (a * a + b * b + c * c)"
    by (simp add: power2_eq_square algebra_simps)
  then show ?thesis
    using m by (simp add: hypot3_def real_sqrt_mult)
qed

lemma half_square: "- (1 / 2) \<le> a \<Longrightarrow> a < 1 / 2 \<Longrightarrow> a * a \<le> 1 / (4::real)"
proof -
  assume "- (1 / 2) \<le> a" "a < 1 / 2"
  then have "\<bar>a\<bar> \<le> 1 / 2" by simp
  then have "\<bar>a\<bar> * \<bar>a\<bar> \<le> (1 / 2) * (1 / 2)" by (intro mult_mono) simp_all
  then show ?thesis by (simp add: abs_mult_self_eq)
qed

lemma random_direction_short:
  fixes rnd :: "nat \<Rightarrow> real"
  assumes "\<And>k. 0 \<le> rnd k \<and> rnd k < 1"
  shows "hypot3 (rnd k - 1 / 2) (rnd (k + 1) - 1 / 2) (rnd (k + 2) - 1 / 2) < 1"
proof -
  have h: "(rnd j - 1 / 2) * (rnd j - 1 / 2) \<le> 1 / 4" for j
    using assms[of j] by (intro half_square) simp_all
  have "(rnd k - 1 / 2) * (rnd k - 1 / 2) + (rnd (k + 1) - 1 / 2) * (rnd (k + 1) - 1 / 2)
      + (rnd (k + 2) - 1 / 2) * (rnd (k + 2) - 1 / 2) < 1"
    using h[of k] h[of "k + 1"] h[of "k + 2"] by linarith
  then have "sqrt ((rnd k - 1 / 2) * (rnd k - 1 / 2) + (rnd (k + 1) - 1 / 2) * (rnd (k + 1) - 1 / 2)
      + (rnd (k + 2) - 1 / 2) * (rnd (k + 2) - 1 / 2)) < sqrt 1"
    by (simp only: real_sqrt_less_iff)
  then show ?thesis
    by (simp add: hypot3_def)
qed

lemma coincident_points_stay_too_close:
  fixes rnd :: "nat \<Rightarrow> real"
  assumes range: "\<And>k. 0 \<le> rnd k \<and> rnd k < 1" and m: "0 < minDist"
  shows "\<not> min_separated minDist (fixOverlappingPoints rnd [p, p] minDist)"
proof -
  let ?a = "rnd 0 - 1 / 2"
  let ?b = "rnd 1 - 1 / 2"
  let ?c = "rnd 2 - 1 / 2"
  have d0: "hypot3 0 0 0 = 0" by (simp add: hypot3_def)
  have s: "hypot3 (minDist * ?a) (minDist * ?b) (minDist * ?c) < minDist"
  proof -
    have "hypot3 ?a ?b ?c < 1"
      using random_direction_short[of rnd 0, OF range] by (simp add: numeral_2_eq_2)
    then have "minDist * hypot3 ?a ?b ?c < minDist * 1"
      using m by (simp only: mult_less_cancel_left_pos)
    then show ?thesis
      using m by (simp add: hypot3_scaled)
  qed
  have e: "vx p + ?a * (minDist / 2) - (vx p - ?a * (minDist / 2)) = minDist * ?a"
    "vy p + ?b * (minDist / 2) - (vy p - ?b * (minDist / 2)) = minDist * ?b"
    "vz p + ?c * (minDist / 2) - (vz p - ?c * (minDist / 2)) = minDist * ?c"
    by (simp_all add: algebra_simps)
  show ?thesis
    using m s by (simp add: fixOverlappingPoints_def Let_def d0 e numeral_2_eq_2)
qed

text \<open>
  Claim C7 says that the output of \<^verbatim>\<open>fixOverlappingPoints\<close> never has two consecutive
  points closer than the threshold. The repair moves the previous output point back by
  half the threshold and never looks at the pair before it again. On the path
  \<open>(0,0,0), (0.05,0,0), (0.06,0,0)\<close> with threshold \<open>0.05\<close> the first pair is accepted
  at distance \<open>0.05\<close>; repairing the second pair moves the middle point to \<open>0.03\<close>, so
  the output is \<open>(0,0,0), (0.03,0,0), (0.08,0,0)\<close>, whose first two points are only
  \<open>0.03\<close> apart. No random direction is drawn on this input. The coincident
  case fails as well (\<open>coincident_points_stay_too_close\<close>).
\<close>

theorem fixOverlappingPoints_breaks_previous_pair:
  "fixOverlappingPoints rnd
     [\<lparr>vx = 0, vy = 0, vz = 0\<rparr>, \<lparr>vx = 5 / 100, vy = 0, vz = 0\<rparr>, \<lparr>vx = 6 / 100, vy = 0, vz = 0\<rparr>]
     (5 / 100) =
   [\<lparr>vx = 0, vy = 0, vz = 0\<rparr>, \<lparr>vx = 3 / 100, vy = 0, vz = 0\<rparr>, \<lparr>vx = 8 / 100, vy = 0, vz = 0\<rparr>] \<and>
   \<not> min_separated (5 / 100)
     (fixOverlappingPoints rnd
        [\<lparr>vx = 0, vy = 0, vz = 0\<rparr>, \<lparr>vx = 5 / 100, vy = 0, vz = 0\<rparr>, \<lparr>vx = 6 / 100, vy = 0, vz = 0\<rparr>]
        (5 / 100))"
  by (simp add: fixOverlappingPoints_def hypot3_axis Let_def)

section \<open>Properties of the pose reports\<close>

lemma smoothSyncPano_noop_iff:
  "smoothSyncPano now1 now2 frame pos quat s = s \<longleftrightarrow>
     below_thresholds pos quat (panoPosition s) (cam_quat (panoCam s))"
proof (cases "below_thresholds pos quat (panoPosition s) (cam_quat (panoCam s))")
  case True
  then show ?thesis by (simp add: smoothSyncPano_def below_thresholds_def)
next
  case False
  then have "syncCount (smoothSyncPano now1 now2 frame pos quat s) = syncCount s + 1"
    by (auto simp: smoothSyncPano_def below_thresholds_def)
  then have "smoothSyncPano now1 now2 frame pos quat s \<noteq> s" by auto
  with False show ?thesis by simp
qed

lemma smoothSyncForge_noop_iff:
  "smoothSyncForge now1 now2 frame pos quat s = s \<longleftrightarrow>
     below_thresholds pos quat (forgePosition s) (cam_quat (forgeCam s))"
proof (cases "below_thresholds pos quat (forgePosition s) (cam_quat (forgeCam s))")
  case True
  then show ?thesis by (simp add: smoothSyncForge_def below_thresholds_def)
next
  case False
  then have "syncCount (smoothSyncForge now1 now2 frame pos quat s) = syncCount s + 1"
    by (auto simp: smoothSyncForge_def below_thresholds_def)
  then have "smoothSyncForge now1 now2 frame pos quat s \<noteq> s" by auto
  with False show ?thesis by simp
qed

lemma below_thresholds_arrays:
  "below_thresholds [x1, x2, x3] [q1, q2, q3, q4] (Some (JsArray [a1, a2, a3])) [b1, b2, b3, b4] \<longleftrightarrow>
     \<bar>x1 - a1\<bar> < 1 / 1000 \<and> \<bar>x2 - a2\<bar> < 1 / 1000 \<and> \<bar>x3 - a3\<bar> < 1 / 1000 \<and>
     \<bar>q1 - b1\<bar> < 1 / 100 \<and> \<bar>q2 - b2\<bar> < 1 / 100 \<and> \<bar>q3 - b3\<bar> < 1 / 100 \<and> \<bar>q4 - b4\<bar> < 1 / 100"
  by (simp add: below_thresholds_def vectorEqual_def quatEqual_def js_index_def abs_diff_below_def)

text \<open>
  Claim C3 says that a pose report is a no-op if and only if the reporting source is the
  current authority and the pose delta is below the thresholds. The reports never read
  the \<^verbatim>\<open>source\<close> field: with \<^verbatim>\<open>forge\<close> as the authority and the panorama position
  stored as the array \<open>[0, 0, 0]\<close>, a panorama report of the stored pose is dropped
  although the reporting source is not the authority.
\<close>

theorem pose_report_noop_without_authority_counterexample:
  "\<not> (smoothSyncPano 1 1 1 [0, 0, 0] [0, 1, 0, 0]
         (setSource (Some Forge) (setPanoPosition (Some (JsArray [0, 0, 0])) initial_store)) =
       setSource (Some Forge) (setPanoPosition (Some (JsArray [0, 0, 0])) initial_store)
      \<longleftrightarrow>
       source (setSource (Some Forge) (setPanoPosition (Some (JsArray [0, 0, 0])) initial_store)) = Some Pano \<and>
       below_thresholds [0, 0, 0] [0, 1, 0, 0]
         (panoPosition (setSource (Some Forge) (setPanoPosition (Some (JsArray [0, 0, 0])) initial_store)))
         (cam_quat (panoCam (setSource (Some Forge) (setPanoPosition (Some (JsArray [0, 0, 0])) initial_store)))))"
  by (simp add: smoothSyncPano_def setSource_def setPanoPosition_def initial_store_def
      vectorEqual_def quatEqual_def js_index_def abs_diff_below_def)

text \<open>
  Claim C3, amended. Whatever the current authority is, a pose report against a position
  stored as an array \<open>[a1, a2, a3]\<close> leaves the whole state unchanged if and only if
  every position component is within \<open>0.001\<close> and every quaternion component within
  \<open>0.01\<close> of the stored pose. Every report that changes the state sets \<^verbatim>\<open>source\<close> to the
  reporting viewer and increases \<^verbatim>\<open>syncCount\<close> by one. Both hold for
  \<^verbatim>\<open>smoothSyncPano\<close> and for \<^verbatim>\<open>smoothSyncForge\<close>.
\<close>

theorem pose_report_noop_iff_below_thresholds:
  "(panoPosition s = Some (JsArray [a1, a2, a3]) \<and> cam_quat (panoCam s) = [b1, b2, b3, b4] \<longrightarrow>
      (smoothSyncPano now1 now2 frame [x1, x2, x3] [q1, q2, q3, q4] s = s \<longleftrightarrow>
         \<bar>x1 - a1\<bar> < 1 / 1000 \<and> \<bar>x2 - a2\<bar> < 1 / 1000 \<and> \<bar>x3 - a3\<bar> < 1 / 1000 \<and>
         \<bar>q1 - b1\<bar> < 1 / 100 \<and> \<bar>q2 - b2\<bar> < 1 / 100 \<and> \<bar>q3 - b3\<bar> < 1 / 100 \<and> \<bar>q4 - b4\<bar> < 1 / 100)) \<and>
   (forgePosition s = Some (JsArray [a1, a2, a3]) \<and> cam_quat (forgeCam s) = [b1, b2, b3, b4] \<longrightarrow>
      (smoothSyncForge now1 now2 frame [x1, x2, x3] [q1, q2, q3, q4] s = s \<longleftrightarrow>
         \<bar>x1 - a1\<bar> < 1 / 1000 \<and> \<bar>x2 - a2\<bar> < 1 / 1000 \<and> \<bar>x3 - a3\<bar> < 1 / 1000 \<and>
         \<bar>q1 - b1\<bar> < 1 / 100 \<and> \<bar>q2 - b2\<bar> < 1 / 100 \<and> \<bar>q3 - b3\<bar> < 1 / 100 \<and> \<bar>q4 - b4\<bar> < 1 / 100)) \<and>
   (smoothSyncPano now1 now2 frame pos quat s \<noteq> s \<longrightarrow>
      source (smoothSyncPano now1 now2 frame pos quat s) = Some Pano \<and>
      syncCount (smoothSyncPano now1 now2 frame pos quat s) = syncCount s + 1) \<and>
   (smoothSyncForge now1 now2 frame pos quat s \<noteq> s \<longrightarrow>
      source (smoothSyncForge now1 now2 frame pos quat s) = Some Forge \<and>
      syncCount (smoothSyncForge now1 now2 frame pos quat s) = syncCount s + 1)"
proof (intro conjI impI)
  assume "panoPosition s = Some (JsArray [a1, a2, a3]) \<and> cam_quat (panoCam s) = [b1, b2, b3, b4]"
  then show "smoothSyncPano now1 now2 frame [x1, x2, x3] [q1, q2, q3, q4] s = s \<longleftrightarrow>
         \<bar>x1 - a1\<bar> < 1 / 1000 \<and> \<bar>x2 - a2\<bar> < 1 / 1000 \<and> \<bar>x3 - a3\<bar> < 1 / 1000 \<and>
         \<bar>q1 - b1\<bar> < 1 / 100 \<and> \<bar>q2 - b2\<bar> < 1 / 100 \<and> \<bar>q3 - b3\<bar> < 1 / 100 \<and> \<bar>q4 - b4\<bar> < 1 / 100"
    by (simp only: smoothSyncPano_noop_iff below_thresholds_arrays)
next
  assume "forgePosition s = Some (JsArray [a1, a2, a3]) \<and> cam_quat (forgeCam s) = [b1, b2, b3, b4]"
  then show "smoothSyncForge now1 now2 frame [x1, x2, x3] [q1, q2, q3, q4] s = s \<longleftrightarrow>
         \<bar>x1 - a1\<bar> < 1 / 1000 \<and> \<bar>x2 - a2\<bar> < 1 / 1000 \<and> \<bar>x3 - a3\<bar> < 1 / 1000 \<and>
         \<bar>q1 - b1\<bar> < 1 / 100 \<and> \<bar>q2 - b2\<bar> < 1 / 100 \<and> \<bar>q3 - b3\<bar> < 1 / 100 \<and> \<bar>q4 - b4\<bar> < 1 / 100"
    by (simp only: smoothSyncForge_noop_iff below_thresholds_arrays)
next
  assume "smoothSyncPano now1 now2 frame pos quat s \<noteq> s"
  then show "source (smoothSyncPano now1 now2 frame pos quat s) = Some Pano"
    by (auto simp: smoothSyncPano_def Let_def split: if_splits)
next
  assume "smoothSyncPano now1 now2 frame pos quat s \<noteq> s"
  then show "syncCount (smoothSyncPano now1 now2 frame pos quat s) = syncCount s + 1"
    by (auto simp: smoothSyncPano_def Let_def split: if_splits)
next
  assume "smoothSyncForge now1 now2 frame pos quat s \<noteq> s"
  then show "source (smoothSyncForge now1 now2 frame pos quat s) = Some Forge"
    by (auto simp: smoothSyncForge_def Let_def split: if_splits)
next
  assume "smoothSyncForge now1 now2 frame pos quat s \<noteq> s"
  then show "syncCount (smoothSyncForge now1 now2 frame pos quat s) = syncCount s + 1"
    by (auto simp: smoothSyncForge_def Let_def split: if_splits)
qed

theorem pose_report_noop_iff_below_thresholds_witness:
  "smoothSyncPano 5 6 1 [0, 0, 0] [0, 1, 0, 0]
     (setPanoPosition (Some (JsArray [0, 0, 0])) initial_store) =
   setPanoPosition (Some (JsArray [0, 0, 0])) initial_store \<and>
   smoothSyncForge 5 6 1 [0, 0, 0] [0, 7071 / 10000, 0, 7071 / 10000]
     (setForgePosition (Some (JsArray [0, 0, 0])) initial_store) =
   setForgePosition (Some (JsArray [0, 0, 0])) initial_store \<and>
   smoothSyncPano 5 6 1 [1, 0, 0] [0, 1, 0, 0] initial_store \<noteq> initial_store \<and>
   source (smoothSyncPano 5 6 1 [1, 0, 0] [0, 1, 0, 0] initial_store) = Some Pano \<and>
   syncCount (smoothSyncPano 5 6 1 [1, 0, 0] [0, 1, 0, 0] initial_store) = 1 \<and>
   smoothSyncForge 5 6 1 [1, 0, 0] [0, 1, 0, 0] initial_store \<noteq> initial_store \<and>
   source (smoothSyncForge 5 6 1 [1, 0, 0] [0, 1, 0, 0] initial_store) = Some Forge \<and>
   syncCount (smoothSyncForge 5 6 1 [1, 0, 0] [0, 1, 0, 0] initial_store) = 1"
proof -
  have pano_stored:
    "panoPosition (setPanoPosition (Some (JsArray [0, 0, 0])) initial_store) = Some (JsArray [0, 0, 0]) \<and>
     cam_quat (panoCam (setPanoPosition (Some (JsArray [0, 0, 0])) initial_store)) =
       [0, 1, 0, 6123233995736766 / 10 ^ 32]"
    by (simp add: setPanoPosition_def initial_store_def)
  have forge_stored:
    "forgePosition (setForgePosition (Some (JsArray [0, 0, 0])) initial_store) = Some (JsArray [0, 0, 0]) \<and>
     cam_quat (forgeCam (setForgePosition (Some (JsArray [0, 0, 0])) initial_store)) =
       [0, 7071 / 10000, 0, 7071 / 10000]"
    by (simp add: setForgePosition_def initial_store_def)
  have pano_accepted: "smoothSyncPano 5 6 1 [1, 0, 0] [0, 1, 0, 0] initial_store \<noteq> initial_store"
    by (simp add: smoothSyncPano_noop_iff below_thresholds_def vectorEqual_def js_index_def
        abs_diff_below_def initial_store_def)
  have forge_accepted: "smoothSyncForge 5 6 1 [1, 0, 0] [0, 1, 0, 0] initial_store \<noteq> initial_store"
    by (simp add: smoothSyncForge_noop_iff below_thresholds_def vectorEqual_def js_index_def
        abs_diff_below_def initial_store_def)
  note a = pose_report_noop_iff_below_thresholds
    [of "setPanoPosition (Some (JsArray [0, 0, 0])) initial_store" 0 0 0 0 1 0
        "6123233995736766 / 10 ^ 32" 5 6 1 0 0 0 0 1 0 0]
  note b = pose_report_noop_iff_below_thresholds
    [of "setForgePosition (Some (JsArray [0, 0, 0])) initial_store" 0 0 0 0 "7071 / 10000" 0
        "7071 / 10000" 5 6 1 0 0 0 0 "7071 / 10000" 0 "7071 / 10000"]
  note c = pose_report_noop_iff_below_thresholds
    [of initial_store _ _ _ _ _ _ _ 5 6 1 _ _ _ _ _ _ _ "[1, 0, 0]" "[0, 1, 0, 0]"]
  from a pano_stored
  have 1: "smoothSyncPano 5 6 1 [0, 0, 0] [0, 1, 0, 0]
            (setPanoPosition (Some (JsArray [0, 0, 0])) initial_store) =
           setPanoPosition (Some (JsArray [0, 0, 0])) initial_store"
    by simp
  from b forge_stored
  have 2: "smoothSyncForge 5 6 1 [0, 0, 0] [0, 7071 / 10000, 0, 7071 / 10000]
            (setForgePosition (Some (JsArray [0, 0, 0])) initial_store) =
           setForgePosition (Some (JsArray [0, 0, 0])) initial_store"
    by simp
  from c pano_accepted forge_accepted
  have 3: "source (smoothSyncPano 5 6 1 [1, 0, 0] [0, 1, 0, 0] initial_store) = Some Pano \<and>
     syncCount (smoothSyncPano 5 6 1 [1, 0, 0] [0, 1, 0, 0] initial_store) = syncCount initial_store + 1 \<and>
     source (smoothSyncForge 5 6 1 [1, 0, 0] [0, 1, 0, 0] initial_store) = Some Forge \<and>
     syncCount (smoothSyncForge 5 6 1 [1, 0, 0] [0, 1, 0, 0] initial_store) = syncCount initial_store + 1"
    by blast
  have 4: "syncCount initial_store = 0" by (simp add: initial_store_def)
  from 1 2 3 4 pano_accepted forge_accepted show ?thesis by simp
qed

section \<open>Properties of the boundary clamp\<close>

lemma getPolygonCentroid_value: "getPolygonCentroid = \<lparr>p_x = 3673 / 60, p_y = 5458 / 60\<rparr>"
  by (simp add: getPolygonCentroid_def BOUNDARY_POINTS_def)

lemma upt_6: "[0..<6] = [0, 1, 2, 3, 4, 5]"
  by (simp add: upt_rec)

lemma hypot2_pos: "a \<noteq> 0 \<Longrightarrow> 0 < hypot2 a b"
  unfolding hypot2_def by (simp add: sum_power2_gt_zero_iff power2_eq_square[symmetric])

lemma clampToBoundary_inside:
  "isPointInsideBoundary x y \<Longrightarrow>
   clampToBoundary x y = \<lparr>c_x = x, c_y = y, wasClamped = False, originalDistance = None\<rparr>"
  by (simp add: clampToBoundary_def)

text \<open>The point \<open>(62, 115.7186...)\<close> lies in the notch of the polygon, left of the edge
  \<open>x = 63.2\<close>.\<close>

lemma notch_point_outside: "\<not> isPointInsideBoundary 62 (86789 / 750)"
  by (simp add: isPointInsideBoundary_def BOUNDARY_POINTS_def inside_step_def upt_6 Let_def)

lemma notch_point_nearest:
  "findNearestBoundaryPoint 62 (86789 / 750) =
   \<lparr>nearestX = 316 / 5, nearestY = 86789 / 750, minDistance = Some (sqrt (36 / 25))\<rparr>"
  by (simp add: findNearestBoundaryPoint_def BOUNDARY_POINTS_def nearest_step_def upt_6 Let_def
      hypot2_def)

lemma notch_point_dirLen: "hypot2 (- (119 / 60)) (- (3094 / 125)) = 37247 / 1500"
  unfolding hypot2_def by (rule real_sqrt_unique) (simp_all add: power2_eq_square)

lemma notch_point_clamped:
  "clampToBoundary 62 (86789 / 750) =
   \<lparr>c_x = 197691 / 3130, c_y = 27047957 / 234750, wasClamped = True,
    originalDistance = Some (Some (sqrt (36 / 25)))\<rparr>"
  by (simp add: clampToBoundary_def notch_point_outside notch_point_nearest
      getPolygonCentroid_value Let_def BOUNDARY_MARGIN_def notch_point_dirLen)

lemma clamped_point_outside: "\<not> isPointInsideBoundary (197691 / 3130) (27047957 / 234750)"
  by (simp add: isPointInsideBoundary_def BOUNDARY_POINTS_def inside_step_def upt_6 Let_def)

lemma clamped_point_nearest:
  "findNearestBoundaryPoint (197691 / 3130) (27047957 / 234750) =
   \<lparr>nearestX = 316 / 5, nearestY = 27047957 / 234750, minDistance = Some (sqrt (625 / 391876))\<rparr>"
  by (simp add: findNearestBoundaryPoint_def BOUNDARY_POINTS_def nearest_step_def upt_6 Let_def
      hypot2_def)

lemma clamped_point_moves:
  "c_y (clampToBoundary (197691 / 3130) (27047957 / 234750)) < 27047957 / 234750"
  by (simp add: clampToBoundary_def clamped_point_outside clamped_point_nearest
      getPolygonCentroid_value Let_def BOUNDARY_MARGIN_def hypot2_pos)

text \<open>
  Claim C9 says that \<^verbatim>\<open>clampToBoundary\<close> is idempotent. A point that is inside comes
  back unchanged (\<open>clampToBoundary_inside\<close>), but a clamped point need not be inside:
  the polygon is not convex, and at the notch edge \<open>x = 63.2\<close> the direction toward the
  vertex centroid \<open>(61.22, 90.97)\<close> points out of the polygon. For the query point
  \<open>(62, 115.7186...)\<close> the nearest edge point is \<open>(63.2, 115.7186...)\<close>, the clamped
  point is \<open>(63.160..., 115.220...)\<close>, which the ray casting test puts outside, and
  clamping that point again moves it further, to a smaller \<open>y\<close>.
\<close>

theorem clampToBoundary_twice_differs_in_notch:
  "clampToBoundary 62 (86789 / 750) =
     \<lparr>c_x = 197691 / 3130, c_y = 27047957 / 234750, wasClamped = True,
      originalDistance = Some (Some (sqrt (36 / 25)))\<rparr> \<and>
   \<not> isPointInsideBoundary (c_x (clampToBoundary 62 (86789 / 750)))
        (c_y (clampToBoundary 62 (86789 / 750))) \<and>
   c_y (clampToBoundary (c_x (clampToBoundary 62 (86789 / 750)))
          (c_y (clampToBoundary 62 (86789 / 750)))) <
   c_y (clampToBoundary 62 (86789 / 750))"
  using clamped_point_moves by (simp add: notch_point_clamped clamped_point_outside)

section \<open>Matrix algebra\<close>

lemmas vec_ops = vec_add_def vec_zero_def vec_sub_def vec_scale_def lengthSq_def

lemmas mat_ops = mat_add_def mat_zero_def outer_def mat_mul_def mat_transpose_def
  mat_identity_def mat_diag_def mat_det_def mat_vec_def

lemma mat_mul_assoc: "mat_mul (mat_mul A B) C = mat_mul A (mat_mul B C)"
  by (simp add: mat_mul_def algebra_simps)

lemma mat_transpose_mul:
  "mat_transpose (mat_mul A B) = mat_mul (mat_transpose B) (mat_transpose A)"
  by (simp add: mat_mul_def mat_transpose_def algebra_simps)

lemma mat_transpose_transpose: "mat_transpose (mat_transpose A) = A"
  by (simp add: mat_transpose_def)

lemma mat_mul_identity_left: "mat_mul mat_identity A = A"
  by (simp add: mat_mul_def mat_identity_def)

lemma mat_mul_identity_right: "mat_mul A mat_identity = A"
  by (simp add: mat_mul_def mat_identity_def)

lemma mat_add_zero_left: "mat_add mat_zero A = A"
  by (simp add: mat_add_def mat_zero_def)

lemma mat_det_mul: "mat_det (mat_mul A B) = mat_det A * mat_det B"
  by (simp add: mat_det_def mat_mul_def algebra_simps)

lemma mat_det_transpose: "mat_det (mat_transpose A) = mat_det A"
  by (simp add: mat_det_def mat_transpose_def algebra_simps)

lemma mat_det_identity: "mat_det mat_identity = 1"
  by (simp add: mat_det_def mat_identity_def)

lemma orthonormal_identity: "orthonormal mat_identity"
  by (simp add: orthonormal_def mat_mul_def mat_transpose_def mat_identity_def)

lemma orthonormal_transpose: "orthonormal A \<Longrightarrow> orthonormal (mat_transpose A)"
  by (simp add: orthonormal_def mat_transpose_transpose)

lemma orthonormal_mul:
  assumes "orthonormal A" and "orthonormal B"
  shows "orthonormal (mat_mul A B)"
proof -
  have "mat_mul (mat_transpose (mat_mul A B)) (mat_mul A B) =
        mat_mul (mat_transpose B) (mat_mul (mat_mul (mat_transpose A) A) B)"
    by (simp add: mat_transpose_mul mat_mul_assoc)
  also have "\<dots> = mat_identity"
    using assms by (simp add: orthonormal_def mat_mul_identity_left)
  finally have left: "mat_mul (mat_transpose (mat_mul A B)) (mat_mul A B) = mat_identity" .
  have "mat_mul (mat_mul A B) (mat_transpose (mat_mul A B)) =
        mat_mul A (mat_mul (mat_mul B (mat_transpose B)) (mat_transpose A))"
    by (simp add: mat_transpose_mul mat_mul_assoc)
  also have "\<dots> = mat_identity"
    using assms by (simp add: orthonormal_def mat_mul_identity_left)
  finally show ?thesis
    using left by (simp add: orthonormal_def)
qed

lemma orthonormal_det:
  assumes "orthonormal A"
  shows "mat_det A = 1 \<or> mat_det A = - 1"
proof -
  have "mat_det (mat_mul (mat_transpose A) A) = 1"
    using assms by (simp add: orthonormal_def mat_det_identity)
  then have "mat_det A * mat_det A = 1"
    by (simp add: mat_det_mul mat_det_transpose)
  then show ?thesis
    by (metis square_eq_1_iff)
qed

text \<open>The reflection \<open>diag(1, 1, -1)\<close>, and negating the last column as a product with it.\<close>

lemma orthonormal_reflection: "orthonormal (mat_diag 1 1 (- 1))"
  by (simp add: orthonormal_def mat_mul_def mat_transpose_def mat_identity_def mat_diag_def)

lemma mat_det_reflection: "mat_det (mat_diag 1 1 (- 1)) = - 1"
  by (simp add: mat_det_def mat_diag_def)

lemma negate_column2_mul: "negate_column2 V = mat_mul V (mat_diag 1 1 (- 1))"
  by (simp add: negate_column2_def mat_mul_def mat_diag_def)

lemma Matrix3_fromArray_columns:
  "Matrix3_fromArray [m11 A, m21 A, m31 A, m12 A, m22 A, m32 A, m13 A, m23 A, m33 A] = A"
  by (simp add: Matrix3_fromArray_def)

lemma Matrix3_fromArray_toArray: "Matrix3_fromArray (Matrix3_toArray A) = A"
  by (simp add: Matrix3_fromArray_def Matrix3_toArray_def)

section \<open>The loops of the solvers as sums\<close>

lemma foldl_vec_add:
  "foldl vec_add a ps =
     \<lparr>vx = vx a + (\<Sum>p\<leftarrow>ps. vx p), vy = vy a + (\<Sum>p\<leftarrow>ps. vy p), vz = vz a + (\<Sum>p\<leftarrow>ps. vz p)\<rparr>"
  by (induction ps arbitrary: a) (simp_all add: vec_add_def add.assoc)

lemma ct_centroid_eq: "ct_centroid (length ps) ps = centroid ps"
  by (simp add: ct_centroid_def centroid_def foldl_vec_add vec_scale_def vec_zero_def)

lemma calib_centroid_eq: "calib_centroid (length ps) ps = centroid ps"
  by (simp add: calib_centroid_def centroid_def foldl_vec_add vec_zero_def)

lemma foldl_plus_sum_list: "foldl (+) a xs = a + sum_list (xs :: real list)"
  by (induction xs arbitrary: a) (simp_all add: add.assoc)

lemma foldl_sumSq:
  "foldl (\<lambda>s p. s + lengthSq (vec_sub p c)) a ps = a + (\<Sum>p\<leftarrow>ps. lengthSq (vec_sub p c))"
  by (induction ps arbitrary: a) (simp_all add: add.assoc)

lemma ct_sumSqB_eq: "ct_sumSqB ps (centroid ps) = sum_sq_centered ps"
  by (simp add: ct_sumSqB_def sum_sq_centered_def foldl_sumSq)

lemma foldl_rms:
  "foldl (\<lambda>sum p. sum + vx p * vx p + vy p * vy p + vz p * vz p) a (map (\<lambda>p. vec_sub p c) ps) =
     a + (\<Sum>p\<leftarrow>ps. lengthSq (vec_sub p c))"
  by (induction ps arbitrary: a) (simp_all add: lengthSq_def add.assoc)

lemma calib_rms_eq:
  "calib_rms n (map (\<lambda>p. vec_sub p (centroid ps)) ps) = sqrt (sum_sq_centered ps / real n)"
  by (simp add: calib_rms_def foldl_rms sum_sq_centered_def)

lemma foldl_outer:
  "foldl (\<lambda>H ab. mat_add H (outer (vec_sub (fst ab) ca) (vec_sub (snd ab) cb))) H0 ab =
     mat_add H0 (covariance_about ca cb ab)"
  by (induction ab arbitrary: H0)
     (simp_all add: covariance_about_def mat_add_def outer_def vec_sub_def split_beta add.assoc)

lemma ct_H_eq:
  assumes "length as = length bs"
  shows "ct_H as bs = cross_covariance as bs"
proof -
  have "ct_centroid (length as) bs = centroid bs"
    using assms ct_centroid_eq[of bs] by simp
  then have "ct_H as bs = mat_add mat_zero (covariance_about (centroid as) (centroid bs) (zip as bs))"
    by (simp only: ct_H_def Let_def ct_centroid_eq foldl_outer)
  then show ?thesis
    by (simp add: mat_add_zero_left cross_covariance_def)
qed

lemma calib_H_loop_eq:
  "length ps = length rs \<Longrightarrow>
   calib_H_loop H0 (map (\<lambda>p. vec_sub p cb) ps) (map (\<lambda>r. vec_sub r ca) rs) =
     Inr (mat_add H0 (covariance_about ca cb (zip rs ps)))"
  by (induction ps rs arbitrary: H0 rule: list_induct2)
     (simp_all add: covariance_about_def mat_add_def outer_def vec_sub_def add.assoc)

lemma calib_H_eq:
  assumes "length panoRefs = length revitRefs"
  shows "calib_H panoRefs revitRefs = Inr (cross_covariance revitRefs (map flipX panoRefs))"
proof -
  have 1: "calib_centroid (length panoRefs) (map flipX panoRefs) = centroid (map flipX panoRefs)"
    using calib_centroid_eq[of "map flipX panoRefs"] by simp
  have 2: "calib_centroid (length panoRefs) revitRefs = centroid revitRefs"
    using assms calib_centroid_eq[of revitRefs] by simp
  have 3: "length (map flipX panoRefs) = length revitRefs"
    using assms by simp
  have "calib_H panoRefs revitRefs =
     Inr (mat_add mat_zero (covariance_about (centroid revitRefs) (centroid (map flipX panoRefs))
            (zip revitRefs (map flipX panoRefs))))"
    unfolding calib_H_def Let_def 1 2 by (rule calib_H_loop_eq[OF 3])
  then show ?thesis
    by (simp add: mat_add_zero_left cross_covariance_def)
qed

section \<open>What the solvers return\<close>

lemma computeTransform_fields:
  assumes "computeTransform (Some svdf) revitPoints panoPoints = Inr tr"
  shows "length revitPoints = length panoPoints" and "3 \<le> length revitPoints"
    and "tr_scale tr = foldl (+) 0 (svd_S (svdf (ct_H revitPoints panoPoints))) /
           (ct_sumSqB panoPoints (ct_centroid (length revitPoints) panoPoints) + 1 / 10 ^ 12)"
    and "Matrix3_fromArray (tr_R tr) =
           mat_mul (mat_mul (svd_U (svdf (ct_H revitPoints panoPoints)))
                     (if mat_det (svd_U (svdf (ct_H revitPoints panoPoints))) *
                         mat_det (svd_V (svdf (ct_H revitPoints panoPoints))) < 0
                      then mat_diag 1 1 (- 1) else mat_identity))
             (mat_transpose (svd_V (svdf (ct_H revitPoints panoPoints))))"
  using assms
  by (auto simp add: computeTransform_def Let_def Matrix3_fromArray_columns Matrix3_fromArray_toArray
      split: if_splits)

lemma computeTransform_defined:
  assumes "length revitPoints = length panoPoints" and "3 \<le> length revitPoints"
  shows "\<exists>tr. computeTransform (Some svdf) revitPoints panoPoints = Inr tr"
  using assms by (simp add: computeTransform_def Let_def)

lemma calculateCalibration_fields:
  assumes "calculateCalibration svdf panoRefs revitRefs = Inr cal"
    and "calib_H panoRefs revitRefs = Inr H"
  shows "cal_scale cal =
           calib_rms (length panoRefs)
             (map (\<lambda>p. vec_sub p (calib_centroid (length panoRefs) revitRefs)) revitRefs) /
           calib_rms (length panoRefs)
             (map (\<lambda>p. vec_sub p (calib_centroid (length panoRefs) (map flipX panoRefs)))
                (map flipX panoRefs))"
    and "cal_rotation cal =
           (if mat_det (mat_mul (svd_U (svdf H)) (mat_transpose (svd_V (svdf H)))) < 0
            then mat_mul (svd_U (svdf H)) (mat_transpose (negate_column2 (svd_V (svdf H))))
            else mat_mul (svd_U (svdf H)) (mat_transpose (svd_V (svdf H))))"
    and "cal_rotationMatrix cal = mat_transpose (cal_rotation cal)"
  using assms
  by (auto simp add: calculateCalibration_def Let_def mat_transpose_mul mat_transpose_transpose
      split: if_splits)

section \<open>Proper rotations and positive scale\<close>

lemma ct_rotation_proper:
  assumes U: "orthonormal U" and V: "orthonormal V"
  defines "S \<equiv> (if mat_det U * mat_det V < 0 then mat_diag 1 1 (- 1) else mat_identity)"
  shows "orthonormal (mat_mul (mat_mul U S) (mat_transpose V))"
    and "mat_det (mat_mul (mat_mul U S) (mat_transpose V)) = 1"
proof -
  have S: "orthonormal S"
    by (simp add: S_def orthonormal_reflection orthonormal_identity)
  show "orthonormal (mat_mul (mat_mul U S) (mat_transpose V))"
    by (intro orthonormal_mul orthonormal_transpose U V S)
  have dU: "mat_det U = 1 \<or> mat_det U = - 1" by (rule orthonormal_det[OF U])
  have dV: "mat_det V = 1 \<or> mat_det V = - 1" by (rule orthonormal_det[OF V])
  have "mat_det (mat_mul (mat_mul U S) (mat_transpose V)) = mat_det U * mat_det S * mat_det V"
    by (simp add: mat_det_mul mat_det_transpose)
  also have "\<dots> = 1"
    using dU dV by (auto simp: S_def mat_det_reflection mat_det_identity)
  finally show "mat_det (mat_mul (mat_mul U S) (mat_transpose V)) = 1" .
qed

lemma calib_rotation_proper:
  assumes U: "orthonormal U" and V: "orthonormal V"
  defines "R \<equiv> (if mat_det (mat_mul U (mat_transpose V)) < 0
            then mat_mul U (mat_transpose (negate_column2 V))
            else mat_mul U (mat_transpose V))"
  shows "orthonormal R" and "mat_det R = 1"
proof -
  have N: "orthonormal (negate_column2 V)"
    unfolding negate_column2_mul by (intro orthonormal_mul V orthonormal_reflection)
  show "orthonormal R"
    unfolding R_def by (auto intro!: orthonormal_mul orthonormal_transpose U V N)
  have dU: "mat_det U = 1 \<or> mat_det U = - 1" by (rule orthonormal_det[OF U])
  have dV: "mat_det V = 1 \<or> mat_det V = - 1" by (rule orthonormal_det[OF V])
  show "mat_det R = 1"
    using dU dV
    by (auto simp: R_def negate_column2_mul mat_det_mul mat_det_transpose mat_det_reflection)
qed

lemma sum_sq_centered_nonneg: "0 \<le> sum_sq_centered ps"
  unfolding sum_sq_centered_def by (rule sum_list_nonneg) (auto simp: lengthSq_def)

lemma lengthSq_zero: "lengthSq v = 0 \<Longrightarrow> vx v = 0 \<and> vy v = 0 \<and> vz v = 0"
proof -
  assume "lengthSq v = 0"
  then have "(vx v)\<^sup>2 + (vy v)\<^sup>2 + (vz v)\<^sup>2 = 0"
    by (simp add: lengthSq_def power2_eq_square)
  then show ?thesis
    by (simp add: sum_power2_eq_zero_iff add_nonneg_eq_0_iff)
qed

lemma sum_sq_centered_zero:
  assumes "sum_sq_centered ps = 0" and "p \<in> set ps"
  shows "vx p = vx (centroid ps) \<and> vy p = vy (centroid ps) \<and> vz p = vz (centroid ps)"
proof -
  have "\<forall>x \<in> set (map (\<lambda>p. lengthSq (vec_sub p (centroid ps))) ps). x = 0"
    using assms(1) unfolding sum_sq_centered_def
    by (subst (asm) sum_list_nonneg_eq_0_iff) (auto simp: lengthSq_def)
  with assms(2) have "lengthSq (vec_sub p (centroid ps)) = 0" by auto
  from lengthSq_zero[OF this] show ?thesis by (simp add: vec_sub_def)
qed

lemma sum_list_all_zero:
  "(\<And>x. x \<in> set xs \<Longrightarrow> f x = (0::real)) \<Longrightarrow> (\<Sum>x\<leftarrow>xs. f x) = 0"
  by (induction xs) simp_all

lemma covariance_about_right_zero:
  assumes "\<And>b. b \<in> set bs \<Longrightarrow> vx b = vx cb \<and> vy b = vy cb \<and> vz b = vz cb"
  shows "covariance_about ca cb (zip as bs) = mat_zero"
proof -
  have z: "\<And>f. (\<And>a b. (a, b) \<in> set (zip as bs) \<Longrightarrow> f a b = (0::real)) \<Longrightarrow>
             (\<Sum>(a, b)\<leftarrow>zip as bs. f a b) = 0"
    by (rule sum_list_all_zero) auto
  have r: "\<And>a b. (a, b) \<in> set (zip as bs) \<Longrightarrow> vx b = vx cb \<and> vy b = vy cb \<and> vz b = vz cb"
    using assms by (auto dest: set_zip_rightD)
  show ?thesis
    unfolding covariance_about_def mat_zero_def
    by (simp add: z r)
qed

lemma covariance_about_left_zero:
  assumes "\<And>a. a \<in> set as \<Longrightarrow> vx a = vx ca \<and> vy a = vy ca \<and> vz a = vz ca"
  shows "covariance_about ca cb (zip as bs) = mat_zero"
proof -
  have z: "\<And>f. (\<And>a b. (a, b) \<in> set (zip as bs) \<Longrightarrow> f a b = (0::real)) \<Longrightarrow>
             (\<Sum>(a, b)\<leftarrow>zip as bs. f a b) = 0"
    by (rule sum_list_all_zero) auto
  have r: "\<And>a b. (a, b) \<in> set (zip as bs) \<Longrightarrow> vx a = vx ca \<and> vy a = vy ca \<and> vz a = vz ca"
    using assms by (auto dest: set_zip_leftD)
  show ?thesis
    unfolding covariance_about_def mat_zero_def
    by (simp add: z r)
qed

lemma cross_covariance_nonzero:
  assumes "cross_covariance as bs \<noteq> mat_zero"
  shows "0 < sum_sq_centered as" and "0 < sum_sq_centered bs" and "as \<noteq> []"
proof -
  have "sum_sq_centered as \<noteq> 0"
    using assms covariance_about_left_zero[of as "centroid as" "centroid bs" bs]
      sum_sq_centered_zero[of as]
    by (auto simp: cross_covariance_def)
  then show "0 < sum_sq_centered as"
    using sum_sq_centered_nonneg[of as] by simp
  have "sum_sq_centered bs \<noteq> 0"
    using assms covariance_about_right_zero[of bs "centroid bs" "centroid as" as]
      sum_sq_centered_zero[of bs]
    by (auto simp: cross_covariance_def)
  then show "0 < sum_sq_centered bs"
    using sum_sq_centered_nonneg[of bs] by simp
  show "as \<noteq> []"
    using assms by (auto simp: cross_covariance_def covariance_about_def mat_zero_def)
qed

lemma svd_trace_positive:
  assumes "svd_valid H sv" and "H \<noteq> mat_zero"
  shows "0 < sum_list (svd_S sv)"
proof -
  obtain s0 s1 s2 where S: "svd_S sv = [s0, s1, s2]"
    using assms(1) unfolding svd_valid_def
    by (cases "svd_S sv" rule: list.exhaust; simp; metis length_0_conv length_Suc_conv numeral_3_eq_3 Suc_inject list.exhaust)
  have nn: "0 \<le> s0" "0 \<le> s1" "0 \<le> s2"
    using assms(1) by (simp_all add: svd_valid_def S)
  have "\<not> (s0 = 0 \<and> s1 = 0 \<and> s2 = 0)"
  proof
    assume "s0 = 0 \<and> s1 = 0 \<and> s2 = 0"
    then have "H = mat_zero"
      using assms(1) by (simp add: svd_valid_def S mat_mul_def mat_diag_def mat_zero_def)
    with assms(2) show False by simp
  qed
  with nn show ?thesis by (auto simp: S)
qed

lemma svd_trace_nonneg:
  assumes "svd_valid H sv"
  shows "0 \<le> sum_list (svd_S sv)"
proof -
  obtain s0 s1 s2 where S: "svd_S sv = [s0, s1, s2]"
    using assms unfolding svd_valid_def
    by (cases "svd_S sv" rule: list.exhaust; simp; metis length_0_conv length_Suc_conv numeral_3_eq_3 Suc_inject list.exhaust)
  with assms show ?thesis by (simp add: svd_valid_def)
qed

lemma non_collinear_not_all_equal:
  assumes "non_collinear ps"
  shows "\<exists>p\<in>set ps. \<exists>q\<in>set ps. \<not> (vx q = vx p \<and> vy q = vy p \<and> vz q = vz p)"
proof -
  obtain p q r where pqr: "p \<in> set ps" "q \<in> set ps" "r \<in> set ps"
      "cross (vec_sub q p) (vec_sub r p) \<noteq> vec_zero"
    using assms unfolding non_collinear_def by blast
  have "\<not> (vx q = vx p \<and> vy q = vy p \<and> vz q = vz p)"
  proof
    assume "vx q = vx p \<and> vy q = vy p \<and> vz q = vz p"
    then have "cross (vec_sub q p) (vec_sub r p) = vec_zero"
      by (simp add: cross_def vec_sub_def vec_zero_def)
    with pqr(4) show False by simp
  qed
  with pqr show ?thesis by blast
qed

lemma non_collinear_sum_sq_pos:
  assumes "non_collinear ps"
  shows "0 < sum_sq_centered ps"
proof -
  obtain p q where pq: "p \<in> set ps" "q \<in> set ps"
      "\<not> (vx q = vx p \<and> vy q = vy p \<and> vz q = vz p)"
    using non_collinear_not_all_equal[OF assms] by blast
  have "sum_sq_centered ps \<noteq> 0"
  proof
    assume z: "sum_sq_centered ps = 0"
    from sum_sq_centered_zero[OF z pq(1)] sum_sq_centered_zero[OF z pq(2)] pq(3)
    show False by simp
  qed
  then show ?thesis using sum_sq_centered_nonneg[of ps] by simp
qed

lemma non_collinear_flipX_sum_sq_pos:
  assumes "non_collinear ps"
  shows "0 < sum_sq_centered (map flipX ps)"
proof -
  obtain p q where pq: "p \<in> set ps" "q \<in> set ps"
      "\<not> (vx q = vx p \<and> vy q = vy p \<and> vz q = vz p)"
    using non_collinear_not_all_equal[OF assms] by blast
  have fp: "flipX p \<in> set (map flipX ps)" and fq: "flipX q \<in> set (map flipX ps)"
    using pq by simp_all
  have "sum_sq_centered (map flipX ps) \<noteq> 0"
  proof
    assume z: "sum_sq_centered (map flipX ps) = 0"
    from sum_sq_centered_zero[OF z fp] sum_sq_centered_zero[OF z fq] pq(3)
    show False by (simp add: flipX_def)
  qed
  then show ?thesis using sum_sq_centered_nonneg[of "map flipX ps"] by simp
qed

lemma computeTransform_proper:
  assumes len: "length revitPoints = length panoPoints" and n: "3 \<le> length revitPoints"
    and valid: "svd_valid (cross_covariance revitPoints panoPoints)
                  (svdf (cross_covariance revitPoints panoPoints))"
  shows "\<exists>tr. computeTransform (Some svdf) revitPoints panoPoints = Inr tr \<and>
           orthonormal (Matrix3_fromArray (tr_R tr)) \<and>
           mat_det (Matrix3_fromArray (tr_R tr)) = 1 \<and> 0 \<le> tr_scale tr \<and>
           (cross_covariance revitPoints panoPoints \<noteq> mat_zero \<longrightarrow> 0 < tr_scale tr)"
proof -
  obtain tr where tr: "computeTransform (Some svdf) revitPoints panoPoints = Inr tr"
    using computeTransform_defined[OF len n] by blast
  let ?H = "cross_covariance revitPoints panoPoints"
  have H: "ct_H revitPoints panoPoints = ?H" by (rule ct_H_eq[OF len])
  have U: "orthonormal (svd_U (svdf ?H))" and V: "orthonormal (svd_V (svdf ?H))"
    using valid by (simp_all add: svd_valid_def)
  have R: "orthonormal (Matrix3_fromArray (tr_R tr))" "mat_det (Matrix3_fromArray (tr_R tr)) = 1"
    unfolding computeTransform_fields(4)[OF tr] H
    by (rule ct_rotation_proper[OF U V])+
  have den: "0 \<le> ct_sumSqB panoPoints (ct_centroid (length revitPoints) panoPoints)"
    using sum_sq_centered_nonneg[of panoPoints] ct_centroid_eq[of panoPoints] len
    by (simp add: ct_sumSqB_eq)
  have nonneg: "0 \<le> tr_scale tr"
    unfolding computeTransform_fields(3)[OF tr] H
    using svd_trace_nonneg[OF valid] den by (simp add: foldl_plus_sum_list)
  have pos: "0 < tr_scale tr" if nz: "?H \<noteq> mat_zero"
    unfolding computeTransform_fields(3)[OF tr] H
    using svd_trace_positive[OF valid nz] den by (simp add: foldl_plus_sum_list add_nonneg_pos)
  from tr R nonneg pos show ?thesis by blast
qed

lemma calculateCalibration_proper:
  assumes len: "length revitRefs = length panoRefs"
    and valid: "svd_valid (cross_covariance revitRefs (map flipX panoRefs))
                  (svdf (cross_covariance revitRefs (map flipX panoRefs)))"
    and revit: "non_collinear revitRefs" and pano: "non_collinear panoRefs"
  shows "\<exists>cal. calculateCalibration svdf panoRefs revitRefs = Inr cal \<and>
           orthonormal (cal_rotation cal) \<and> mat_det (cal_rotation cal) = 1 \<and> 0 < cal_scale cal"
proof -
  let ?H = "cross_covariance revitRefs (map flipX panoRefs)"
  have H: "calib_H panoRefs revitRefs = Inr ?H"
    using len by (simp add: calib_H_eq)
  obtain cal where cal: "calculateCalibration svdf panoRefs revitRefs = Inr cal"
    by (simp add: calculateCalibration_def H Let_def)
  have U: "orthonormal (svd_U (svdf ?H))" and V: "orthonormal (svd_V (svdf ?H))"
    using valid by (simp_all add: svd_valid_def)
  have R: "orthonormal (cal_rotation cal)" "mat_det (cal_rotation cal) = 1"
    unfolding calculateCalibration_fields(2)[OF cal H]
    by (rule calib_rotation_proper[OF U V])+
  have c1: "calib_centroid (length panoRefs) revitRefs = centroid revitRefs"
    using calib_centroid_eq[of revitRefs] len by simp
  have c2: "calib_centroid (length panoRefs) (map flipX panoRefs) = centroid (map flipX panoRefs)"
    using calib_centroid_eq[of "map flipX panoRefs"] by simp
  have scale: "cal_scale cal = sqrt (sum_sq_centered revitRefs / real (length panoRefs)) /
                 sqrt (sum_sq_centered (map flipX panoRefs) / real (length panoRefs))"
    unfolding calculateCalibration_fields(1)[OF cal H] c1 c2 by (simp only: calib_rms_eq)
  have pos: "0 < sum_sq_centered revitRefs" "0 < sum_sq_centered (map flipX panoRefs)"
    using non_collinear_sum_sq_pos[OF revit] non_collinear_flipX_sum_sq_pos[OF pano] by simp_all
  have "panoRefs \<noteq> []"
    using pano by (auto simp: non_collinear_def)
  then have "0 < real (length panoRefs)" by simp
  with pos have "0 < cal_scale cal" unfolding scale by simp
  with cal R show ?thesis by blast
qed

section \<open>The concrete correspondence sets\<close>

lemmas example_points = axis_points_def axis_points_entered_def similar_targets_def
  stretched_targets_def triangle_targets_def

lemma similar_cross_covariance:
  "cross_covariance similar_targets axis_points =
     \<lparr>m11 = 0, m12 = - 4, m13 = 0, m21 = 4, m22 = 0, m23 = 0, m31 = 0, m32 = 0, m33 = 4\<rparr>"
  "cross_covariance similar_targets (map flipX axis_points_entered) =
     \<lparr>m11 = 0, m12 = - 4, m13 = 0, m21 = 4, m22 = 0, m23 = 0, m31 = 0, m32 = 0, m33 = 4\<rparr>"
  by (simp_all add: cross_covariance_def covariance_about_def centroid_def example_points flipX_def)

lemma similar_svd_valid:
  "svd_valid \<lparr>m11 = 0, m12 = - 4, m13 = 0, m21 = 4, m22 = 0, m23 = 0, m31 = 0, m32 = 0, m33 = 4\<rparr>
     similar_svd"
  by (simp add: svd_valid_def similar_svd_def orthonormal_def rot90z_def mat_ops)

lemma stretched_cross_covariance:
  "cross_covariance stretched_targets axis_points =
     \<lparr>m11 = 0, m12 = - 2, m13 = 0, m21 = 4, m22 = 0, m23 = 0, m31 = 0, m32 = 0, m33 = 2\<rparr>"
  "cross_covariance stretched_targets (map flipX axis_points_entered) =
     \<lparr>m11 = 0, m12 = - 2, m13 = 0, m21 = 4, m22 = 0, m23 = 0, m31 = 0, m32 = 0, m33 = 2\<rparr>"
  by (simp_all add: cross_covariance_def covariance_about_def centroid_def example_points flipX_def)

lemma stretched_svd_valid:
  "svd_valid \<lparr>m11 = 0, m12 = - 2, m13 = 0, m21 = 4, m22 = 0, m23 = 0, m31 = 0, m32 = 0, m33 = 2\<rparr>
     stretched_svd"
  by (simp add: svd_valid_def stretched_svd_def orthonormal_def rot90z_def mat_ops)

lemma triangle_cross_covariance:
  "cross_covariance triangle_targets axis_points = mat_zero"
  by (simp add: cross_covariance_def covariance_about_def centroid_def example_points mat_zero_def)

lemma zero_svd_valid: "svd_valid mat_zero zero_svd"
  by (simp add: svd_valid_def zero_svd_def orthonormal_def mat_ops)

lemma non_collinear_axis_points: "non_collinear axis_points"
  unfolding non_collinear_def
  by (rule bexI[of _ "\<lparr>vx = 1, vy = 0, vz = 0\<rparr>"], rule bexI[of _ "\<lparr>vx = 0, vy = 1, vz = 0\<rparr>"],
      rule bexI[of _ "\<lparr>vx = 0, vy = 0, vz = 1\<rparr>"])
     (simp_all add: example_points cross_def vec_ops)

lemma non_collinear_axis_points_entered: "non_collinear axis_points_entered"
  unfolding non_collinear_def
  by (rule bexI[of _ "\<lparr>vx = 1, vy = 0, vz = 0\<rparr>"], rule bexI[of _ "\<lparr>vx = 0, vy = 1, vz = 0\<rparr>"],
      rule bexI[of _ "\<lparr>vx = 0, vy = 0, vz = 1\<rparr>"])
     (simp_all add: example_points cross_def vec_ops)

lemma non_collinear_similar_targets: "non_collinear similar_targets"
  unfolding non_collinear_def
  by (rule bexI[of _ "\<lparr>vx = 10, vy = 22, vz = 0\<rparr>"], rule bexI[of _ "\<lparr>vx = 8, vy = 20, vz = 0\<rparr>"],
      rule bexI[of _ "\<lparr>vx = 10, vy = 20, vz = 2\<rparr>"])
     (simp_all add: example_points cross_def vec_ops)

lemma non_collinear_triangle_targets: "non_collinear triangle_targets"
  unfolding non_collinear_def
  by (rule bexI[of _ "\<lparr>vx = 1, vy = 0, vz = 0\<rparr>"], rule bexI[of _ "\<lparr>vx = 0, vy = 1, vz = 0\<rparr>"],
      rule bexI[of _ "\<lparr>vx = - 1, vy = - 1, vz = 0\<rparr>"])
     (simp_all add: example_points cross_def vec_ops)

lemma triangle_ct_scale:
  "map_sum id tr_scale (computeTransform (Some (svd_const zero_svd)) triangle_targets axis_points) = Inr 0"
  by (simp add: computeTransform_def Let_def svd_const_def zero_svd_def example_points)

section \<open>Claims about the calibration solvers\<close>

text \<open>
  Claim C5 says that for at least three non-collinear point pairs the rotation is proper
  and the scale strictly positive. \<^verbatim>\<open>computeTransform\<close> takes the scale from the sum
  of the singular values of the cross-covariance matrix, and that matrix can vanish for
  clouds that are not collinear: the six axis points, matched in opposite pairs with the
  corners of a triangle, have the zero matrix as cross-covariance, every singular value is
  zero, and the returned scale is \<open>0\<close>.
\<close>

theorem computeTransform_zero_scale_counterexample:
  "non_collinear axis_points \<and> non_collinear triangle_targets \<and>
   length triangle_targets = length axis_points \<and> 3 \<le> length triangle_targets \<and>
   svd_valid (cross_covariance triangle_targets axis_points) zero_svd \<and>
   map_sum id tr_scale (computeTransform (Some (svd_const zero_svd)) triangle_targets axis_points) = Inr 0"
  using zero_svd_valid
  by (simp add: non_collinear_axis_points non_collinear_triangle_targets triangle_cross_covariance triangle_ct_scale)
     (simp add: example_points)

text \<open>
  Claim C5, amended. For equally many (at least three) source and target points, both
  clouds non-collinear, and a decomposition of their cross-covariance matrix with
  orthonormal \<open>U\<close>, \<open>V\<close> and non-negative singular values, both solvers return a
  rotation matrix that is orthonormal with determinant \<open>+1\<close> (the reflection correction
  of either solver turns a determinant \<open>-1\<close> into \<open>+1\<close>). The scale of
  \<^verbatim>\<open>calculateCalibration\<close> is strictly positive. The scale of \<^verbatim>\<open>computeTransform\<close> is
  never negative, and it is strictly positive when the cross-covariance matrix is not the
  zero matrix. \<^verbatim>\<open>computeTransform\<close> returns the rotation as the column-major array of
  \<^verbatim>\<open>R.toArray()\<close>; \<^verbatim>\<open>calculateCalibration\<close> flips the X axis of the source points
  first.
\<close>

theorem solvers_return_proper_rotation_and_positive_scale:
  "(length revitPoints = length panoPoints \<and> 3 \<le> length revitPoints \<and>
    non_collinear revitPoints \<and> non_collinear panoPoints \<and>
    svd_valid (cross_covariance revitPoints panoPoints) (svdf (cross_covariance revitPoints panoPoints)) \<longrightarrow>
      (\<exists>tr. computeTransform (Some svdf) revitPoints panoPoints = Inr tr \<and>
            orthonormal (Matrix3_fromArray (tr_R tr)) \<and>
            mat_det (Matrix3_fromArray (tr_R tr)) = 1 \<and> 0 \<le> tr_scale tr \<and>
            (cross_covariance revitPoints panoPoints \<noteq> mat_zero \<longrightarrow> 0 < tr_scale tr))) \<and>
   (length revitRefs = length panoRefs \<and> 3 \<le> length panoRefs \<and>
    non_collinear revitRefs \<and> non_collinear panoRefs \<and>
    svd_valid (cross_covariance revitRefs (map flipX panoRefs))
      (svdf' (cross_covariance revitRefs (map flipX panoRefs))) \<longrightarrow>
      (\<exists>cal. calculateCalibration svdf' panoRefs revitRefs = Inr cal \<and>
            orthonormal (cal_rotation cal) \<and> mat_det (cal_rotation cal) = 1 \<and> 0 < cal_scale cal))"
  using computeTransform_proper[of revitPoints panoPoints svdf]
    calculateCalibration_proper[of revitRefs panoRefs svdf']
  by blast

theorem solvers_return_proper_rotation_and_positive_scale_witness:
  "(\<exists>tr. computeTransform (Some (svd_const similar_svd)) similar_targets axis_points = Inr tr \<and>
         orthonormal (Matrix3_fromArray (tr_R tr)) \<and>
         mat_det (Matrix3_fromArray (tr_R tr)) = 1 \<and> 0 < tr_scale tr) \<and>
   (\<exists>cal. calculateCalibration (svd_const similar_svd) axis_points_entered similar_targets = Inr cal \<and>
         orthonormal (cal_rotation cal) \<and> mat_det (cal_rotation cal) = 1 \<and> 0 < cal_scale cal)"
proof -
  have 1: "length similar_targets = length axis_points \<and> 3 \<le> length similar_targets \<and>
    non_collinear similar_targets \<and> non_collinear axis_points \<and>
    svd_valid (cross_covariance similar_targets axis_points)
      (svd_const similar_svd (cross_covariance similar_targets axis_points))"
    using similar_svd_valid non_collinear_similar_targets non_collinear_axis_points
    by (simp add: similar_cross_covariance svd_const_def)
       (simp add: example_points)
  have nz: "cross_covariance similar_targets axis_points \<noteq> mat_zero"
    by (simp add: similar_cross_covariance mat_zero_def)
  have 2: "length similar_targets = length axis_points_entered \<and> 3 \<le> length axis_points_entered \<and>
    non_collinear similar_targets \<and> non_collinear axis_points_entered \<and>
    svd_valid (cross_covariance similar_targets (map flipX axis_points_entered))
      (svd_const similar_svd (cross_covariance similar_targets (map flipX axis_points_entered)))"
    using similar_svd_valid non_collinear_similar_targets non_collinear_axis_points_entered
    by (simp add: similar_cross_covariance svd_const_def)
       (simp add: example_points)
  from 1 2 nz solvers_return_proper_rotation_and_positive_scale[of similar_targets axis_points "svd_const similar_svd" similar_targets
      axis_points_entered "svd_const similar_svd"]
  show ?thesis by blast
qed

lemma computeTransform_scale:
  assumes tr: "computeTransform (Some svdf) revitPoints panoPoints = Inr tr"
  shows "tr_scale tr =
           sum_list (svd_S (svdf (cross_covariance revitPoints panoPoints))) /
           (sum_sq_centered panoPoints + 1 / 10 ^ 12)"
proof -
  have len: "length revitPoints = length panoPoints" by (rule computeTransform_fields(1)[OF tr])
  have c: "ct_centroid (length revitPoints) panoPoints = centroid panoPoints"
    using ct_centroid_eq[of panoPoints] len by simp
  show ?thesis
    unfolding computeTransform_fields(3)[OF tr] c ct_H_eq[OF len] ct_sumSqB_eq
    by (simp add: foldl_plus_sum_list)
qed

lemma calculateCalibration_scale:
  assumes len: "length revitRefs = length panoRefs"
    and cal: "calculateCalibration svdf panoRefs revitRefs = Inr cal"
  shows "cal_scale cal =
           sqrt (sum_sq_centered revitRefs / real (length panoRefs)) /
           sqrt (sum_sq_centered (map flipX panoRefs) / real (length panoRefs))"
proof -
  have H: "calib_H panoRefs revitRefs = Inr (cross_covariance revitRefs (map flipX panoRefs))"
    using len by (simp add: calib_H_eq)
  have c1: "calib_centroid (length panoRefs) revitRefs = centroid revitRefs"
    using calib_centroid_eq[of revitRefs] len by simp
  have c2: "calib_centroid (length panoRefs) (map flipX panoRefs) = centroid (map flipX panoRefs)"
    using calib_centroid_eq[of "map flipX panoRefs"] by simp
  show ?thesis
    unfolding calculateCalibration_fields(1)[OF cal H] c1 c2 by (simp only: calib_rms_eq)
qed

lemma sqrt_2_neq: "sqrt 2 \<noteq> 4 / 3"
proof
  assume a: "sqrt 2 = 4 / 3"
  have "(sqrt 2)\<^sup>2 = 2" by simp
  with a have "(4 / 3 :: real)\<^sup>2 = 2" by (simp only:)
  then show False by (simp add: power2_eq_square)
qed

lemma stretched_sums:
  "sum_list (svd_S stretched_svd) = 8" "sum_sq_centered axis_points = 6"
  "sum_sq_centered (map flipX axis_points_entered) = 6" "sum_sq_centered stretched_targets = 12"
  by (simp_all add: stretched_svd_def sum_sq_centered_def centroid_def example_points flipX_def vec_ops)

lemma stretched_computeTransform_scale:
  "map_sum id tr_scale (computeTransform (Some (svd_const stretched_svd)) stretched_targets axis_points)
     = Inr (8 / (6 + 1 / 10 ^ 12))"
proof -
  obtain tr where tr: "computeTransform (Some (svd_const stretched_svd)) stretched_targets axis_points = Inr tr"
    using computeTransform_defined[of stretched_targets axis_points]
    by (auto simp: example_points)
  show ?thesis
    using computeTransform_scale[OF tr] by (simp add: tr svd_const_def stretched_sums)
qed

lemma stretched_calculateCalibration_scale:
  "map_sum id cal_scale (calculateCalibration (svd_const stretched_svd) axis_points_entered stretched_targets)
     = Inr (sqrt 2)"
proof -
  have len: "length stretched_targets = length axis_points_entered" by (simp add: example_points)
  obtain cal where cal: "calculateCalibration (svd_const stretched_svd) axis_points_entered stretched_targets = Inr cal"
    using len by (simp add: calculateCalibration_def calib_H_eq Let_def)
  have "length axis_points_entered = 6" by (simp add: example_points)
  then show ?thesis
    using calculateCalibration_scale[OF len cal] by (simp add: cal stretched_sums)
qed

text \<open>
  Claim C2 says that the scale of the solver is the sum of the singular values of the
  cross-covariance matrix divided by the sum of the squared norms of the centered source
  points. For the six axis points and the stretched targets the cross-covariance is
  \<open>rot90z diag(4, 2, 2)\<close>, so that ratio is \<open>8 / 6\<close>. \<^verbatim>\<open>computeTransform\<close> returns
  \<open>8 / (6 + 1e-12)\<close>, and \<^verbatim>\<open>calculateCalibration\<close> returns the ratio of the RMS radii
  of the two clouds, \<open>sqrt 2\<close>.
\<close>

theorem solver_scale_not_trace_ratio_counterexample:
  "svd_valid (cross_covariance stretched_targets axis_points) stretched_svd \<and>
   map_sum id tr_scale (computeTransform (Some (svd_const stretched_svd)) stretched_targets axis_points) \<noteq>
     Inr (sum_list (svd_S stretched_svd) / sum_sq_centered axis_points) \<and>
   svd_valid (cross_covariance stretched_targets (map flipX axis_points_entered)) stretched_svd \<and>
   map_sum id cal_scale (calculateCalibration (svd_const stretched_svd) axis_points_entered stretched_targets) \<noteq>
     Inr (sum_list (svd_S stretched_svd) / sum_sq_centered (map flipX axis_points_entered))"
  using stretched_svd_valid sqrt_2_neq
  by (simp add: stretched_cross_covariance stretched_computeTransform_scale
      stretched_calculateCalibration_scale stretched_sums)

text \<open>
  Claim C2, amended. The scale of \<^verbatim>\<open>computeTransform\<close> is the sum of the singular
  values that the decomposition of the cross-covariance matrix of the centered clouds
  returns, divided by the sum of the squared norms of the centered source points plus
  \<open>1e-12\<close>. The scale of \<^verbatim>\<open>calculateCalibration\<close> does not use the singular values: for
  source points that are not all equal it is the RMS distance of the target points from
  their centroid divided by the RMS distance of the (X-flipped) source points from
  theirs.
\<close>

theorem solver_scale_formulas:
  "(computeTransform (Some svdf) revitPoints panoPoints = Inr tr \<longrightarrow>
      tr_scale tr =
        sum_list (svd_S (svdf (cross_covariance revitPoints panoPoints))) /
        (sum_sq_centered panoPoints + 1 / 10 ^ 12)) \<and>
   (length revitRefs = length panoRefs \<and> 0 < sum_sq_centered (map flipX panoRefs) \<and>
    calculateCalibration svdf' panoRefs revitRefs = Inr cal \<longrightarrow>
      cal_scale cal =
        sqrt (sum_sq_centered revitRefs / real (length panoRefs)) /
        sqrt (sum_sq_centered (map flipX panoRefs) / real (length panoRefs)))"
  using computeTransform_scale[of svdf revitPoints panoPoints tr]
    calculateCalibration_scale[of revitRefs panoRefs svdf' cal]
  by blast

theorem solver_scale_formulas_witness:
  "map_sum id tr_scale (computeTransform (Some (svd_const similar_svd)) similar_targets axis_points) =
     Inr (sum_list (svd_S similar_svd) / (sum_sq_centered axis_points + 1 / 10 ^ 12)) \<and>
   map_sum id cal_scale (calculateCalibration (svd_const similar_svd) axis_points_entered similar_targets) =
     Inr (sqrt (sum_sq_centered similar_targets / 6) / sqrt (sum_sq_centered (map flipX axis_points_entered) / 6))"
proof -
  obtain tr where tr: "computeTransform (Some (svd_const similar_svd)) similar_targets axis_points = Inr tr"
    using computeTransform_defined[of similar_targets axis_points]
    by (auto simp: example_points)
  have len: "length similar_targets = length axis_points_entered" by (simp add: example_points)
  obtain cal where cal: "calculateCalibration (svd_const similar_svd) axis_points_entered similar_targets = Inr cal"
    using len by (simp add: calculateCalibration_def calib_H_eq Let_def)
  have n: "real (length axis_points_entered) = 6" by (simp add: example_points)
  have nonzero: "0 < sum_sq_centered (map flipX axis_points_entered)"
    by (simp add: stretched_sums)
  from solver_scale_formulas[of "svd_const similar_svd" similar_targets axis_points tr similar_targets axis_points_entered
      "svd_const similar_svd" cal] tr len cal nonzero
  show ?thesis by (simp add: svd_const_def n)
qed

lemma similar_calib_H:
  "calib_H axis_points_entered similar_targets =
     Inr \<lparr>m11 = 0, m12 = - 4, m13 = 0, m21 = 4, m22 = 0, m23 = 0, m31 = 0, m32 = 0, m33 = 4\<rparr>"
proof -
  have "length axis_points_entered = length similar_targets" by (simp add: example_points)
  then show ?thesis by (simp only: calib_H_eq similar_cross_covariance)
qed

lemma similar_calculateCalibration:
  "calculateCalibration (svd_const similar_svd) axis_points_entered similar_targets =
     Inr similar_calibration"
  apply (simp add: calculateCalibration_def similar_calib_H Let_def svd_const_def similar_svd_def
      similar_calibration_def)
  apply (simp add: example_points calib_centroid_def calib_rms_def flipX_def vec_ops mat_ops
      rot90z_def calib_point_error_def calib_transformed_def Let_def)
  done

lemma vec_sub_add_cancel: "vec_sub (vec_add a t) t = a"
  by (simp add: vec_ops)

lemma mat_vec_scale: "mat_vec A (vec_scale s v) = vec_scale s (mat_vec A v)"
  by (simp add: mat_vec_def vec_scale_def algebra_simps)

lemma vec_scale_inverse: "s \<noteq> 0 \<Longrightarrow> vec_scale (1 / s) (vec_scale s v) = v"
  by (simp add: vec_scale_def)

lemma forgeToPano_panoToForge:
  assumes "cal_rotationMatrix cal = mat_transpose (cal_rotation cal)" and "cal_scale cal \<noteq> 0"
  shows "forgeToPano (panoToForge p cal) cal =
           flipX (mat_vec (cal_rotation cal) (mat_vec (cal_rotation cal) (flipX p)))"
proof -
  have "forgeToPano (panoToForge p cal) cal =
          flipX (vec_scale (1 / cal_scale cal)
            (mat_vec (cal_rotation cal)
              (vec_scale (cal_scale cal) (mat_vec (cal_rotation cal) (flipX p)))))"
    using assms(1)
    by (simp add: forgeToPano_def panoToForge_def Let_def mat_transpose_transpose
        vec_sub_add_cancel flipX_def)
  then show ?thesis
    using assms(2) by (simp add: mat_vec_scale vec_scale_inverse)
qed

lemma calculateCalibration_roundtrip:
  assumes cal: "calculateCalibration svdf panoRefs revitRefs = Inr cal" and "cal_scale cal \<noteq> 0"
  shows "forgeToPano (panoToForge p cal) cal =
           flipX (mat_vec (cal_rotation cal) (mat_vec (cal_rotation cal) (flipX p)))"
proof -
  obtain H where H: "calib_H panoRefs revitRefs = Inr H"
    using cal by (cases "calib_H panoRefs revitRefs") (simp_all add: calculateCalibration_def Let_def)
  show ?thesis
    by (rule forgeToPano_panoToForge[OF calculateCalibration_fields(3)[OF cal H] assms(2)])
qed

text \<open>
  Claim C1 says that \<^verbatim>\<open>forgeToPano\<close> undoes \<^verbatim>\<open>panoToForge\<close> for every calibration
  that \<^verbatim>\<open>calculateCalibration\<close> returns. The solver returns \<^verbatim>\<open>rotation\<close> and
  \<^verbatim>\<open>rotationMatrix\<close> as transposes of each other; \<^verbatim>\<open>panoToForge\<close> multiplies by
  \<^verbatim>\<open>rotation\<close> and \<^verbatim>\<open>forgeToPano\<close> by the transpose of \<^verbatim>\<open>rotationMatrix\<close>, which is
  \<^verbatim>\<open>rotation\<close> again and not its inverse (\<open>calculateCalibration_roundtrip\<close>). On the
  similar correspondence set, whose rotation is a quarter turn, the reference point
  \<open>(1, 0, 0)\<close> is mapped to its target \<open>(10, 18, 0)\<close> and from there back to
  \<open>(-1, 0, 0)\<close>, two meters from where it started.
\<close>

theorem forgeToPano_applies_rotation_again:
  "svd_valid (cross_covariance similar_targets (map flipX axis_points_entered)) similar_svd \<and>
   calculateCalibration (svd_const similar_svd) axis_points_entered similar_targets =
     Inr similar_calibration \<and>
   panoToForge \<lparr>vx = 1, vy = 0, vz = 0\<rparr> similar_calibration = \<lparr>vx = 10, vy = 18, vz = 0\<rparr> \<and>
   forgeToPano (panoToForge \<lparr>vx = 1, vy = 0, vz = 0\<rparr> similar_calibration) similar_calibration =
     \<lparr>vx = - 1, vy = 0, vz = 0\<rparr>"
  using similar_svd_valid
  by (simp add: similar_cross_covariance similar_calculateCalibration)
     (simp add: similar_calibration_def forgeToPano_def panoToForge_def Let_def rot90z_def
        mat_vec_def mat_transpose_def vec_ops)

lemma computeTransform_needs_three_pairs:
  "length revitPoints < 3 \<Longrightarrow> computeTransform numeric revitPoints panoPoints = Inl NeedThreePoints"
  by (simp add: computeTransform_def)

text \<open>
  Claim C6 says that the solver fails when it is called with fewer than three pairs.
  \<^verbatim>\<open>computeTransform\<close> does (\<open>computeTransform_needs_three_pairs\<close>), but
  \<^verbatim>\<open>calculateCalibration\<close> has no such check: for the two pairs
  \<open>(0,0,0) \<rightarrow> (0,0,0)\<close> and \<open>(1,0,0) \<rightarrow> (2,0,0)\<close> it returns a calibration, with scale
  \<open>2\<close>, whatever the decomposition is.
\<close>

theorem calculateCalibration_accepts_two_pairs:
  "\<exists>cal. calculateCalibration svdf
            [\<lparr>vx = 0, vy = 0, vz = 0\<rparr>, \<lparr>vx = 1, vy = 0, vz = 0\<rparr>]
            [\<lparr>vx = 0, vy = 0, vz = 0\<rparr>, \<lparr>vx = 2, vy = 0, vz = 0\<rparr>] = Inr cal \<and>
         cal_scale cal = 2"
  by (simp add: calculateCalibration_def calib_H_def calib_centroid_def calib_rms_def flipX_def
      vec_ops Let_def real_sqrt_divide)

section \<open>Quaternions up to a positive factor\<close>

lemma qNorm2_qMul: "qNorm2 (qMul a b) = qNorm2 a * qNorm2 b"
  by (simp add: qNorm2_def qMul_def algebra_simps)

lemma qNorm2_qScale: "qNorm2 (qScale c q) = c * c * qNorm2 q"
  by (simp add: qNorm2_def qScale_def algebra_simps)

lemma qNorm2_nonneg: "0 \<le> qNorm2 q"
  by (simp add: qNorm2_def)

lemma qMul_qScale_left: "qMul (qScale c p) q = qScale c (qMul p q)"
  by (simp add: qMul_def qScale_def algebra_simps)

lemma qMul_qScale_right: "qMul p (qScale c q) = qScale c (qMul p q)"
  by (simp add: qMul_def qScale_def algebra_simps)

lemma qScale_qScale: "qScale a (qScale b q) = qScale (a * b) q"
  by (simp add: qScale_def)

lemma Quaternion_multiply_qMul: "Quaternion_multiply a b = qMul a b"
  by (simp add: Quaternion_multiply_def qMul_def)

lemma qNormalize_qScale: "qNormalize q = qScale (1 / sqrt (qNorm2 q)) q"
  by (simp add: qNormalize_def hypot4_def qNorm2_def qScale_def Let_def)

lemma qInverse_qScale: "qInverse q = qScale (1 / qNorm2 q) (qConj q)"
  by (simp add: qInverse_def qNorm2_def qScale_def qConj_def Let_def)

lemma same_direction_refl: "same_direction q q"
  unfolding same_direction_def by (rule exI[of _ 1]) (simp add: qScale_def)

lemma same_direction_trans:
  assumes "same_direction p q" and "same_direction q r"
  shows "same_direction p r"
proof -
  obtain a where a: "0 < a" "p = qScale a q"
    using assms(1) unfolding same_direction_def by blast
  obtain b where b: "0 < b" "q = qScale b r"
    using assms(2) unfolding same_direction_def by blast
  have "0 < a * b" and "p = qScale (a * b) r"
    using a b by (simp_all add: qScale_qScale)
  then show ?thesis unfolding same_direction_def by blast
qed

lemma same_direction_qMul:
  assumes "same_direction a a'" and "same_direction b b'"
  shows "same_direction (qMul a b) (qMul a' b')"
proof -
  obtain c where c: "0 < c" "a = qScale c a'"
    using assms(1) unfolding same_direction_def by blast
  obtain d where d: "0 < d" "b = qScale d b'"
    using assms(2) unfolding same_direction_def by blast
  have "0 < c * d" and "qMul a b = qScale (c * d) (qMul a' b')"
    using c d by (simp_all add: qMul_qScale_left qMul_qScale_right qScale_qScale mult.commute)
  then show ?thesis unfolding same_direction_def by blast
qed

lemma same_direction_qNorm2: "same_direction p q \<Longrightarrow> 0 < qNorm2 q \<Longrightarrow> 0 < qNorm2 p"
  unfolding same_direction_def by (auto simp: qNorm2_qScale)

lemma same_direction_qNormalize: "0 < qNorm2 q \<Longrightarrow> same_direction (qNormalize q) q"
  unfolding same_direction_def qNormalize_qScale
  by (rule exI[of _ "1 / sqrt (qNorm2 q)"]) simp

lemma same_direction_qInverse: "0 < qNorm2 q \<Longrightarrow> same_direction (qInverse q) (qConj q)"
  unfolding same_direction_def qInverse_qScale
  by (rule exI[of _ "1 / qNorm2 q"]) simp

lemma qNormalize_same_direction:
  assumes "same_direction p q"
  shows "qNormalize p = qNormalize q"
proof -
  obtain c where c: "0 < c" "p = qScale c q"
    using assms unfolding same_direction_def by blast
  have "sqrt (c * c * qNorm2 q) = c * sqrt (qNorm2 q)"
    using c(1) by (simp add: real_sqrt_mult)
  then show ?thesis
    using c by (simp add: qNormalize_qScale qNorm2_qScale qScale_qScale)
qed

lemma quat_eta: "\<lparr>qx = qx q, qy = qy q, qz = qz q, qw = qw q\<rparr> = (q :: quat)"
  by (cases q) simp

lemma same_direction_qConj: "same_direction p q \<Longrightarrow> same_direction (qConj p) (qConj q)"
  unfolding same_direction_def by (auto simp: qConj_def qScale_def)

lemma qNorm2_constants:
  "0 < qNorm2 QUAT_TRANSFORM" "0 < qNorm2 unit_pitch" "0 < qNorm2 Q_180_Z" "0 < qNorm2 Q_PITCH_DOWN_90"
  by (simp_all add: qNorm2_def QUAT_TRANSFORM_def unit_pitch_def Q_180_Z_def Q_PITCH_DOWN_90_def
      SQRT1_2_def)

lemma qNorm2_qConj: "qNorm2 (qConj q) = qNorm2 q"
  by (simp add: qNorm2_def qConj_def)

lemma pitch_direction: "same_direction Q_PITCH_DOWN_90 unit_pitch"
  unfolding same_direction_def
  by (rule exI[of _ "sqrt (1 / 2)"]) (simp add: Q_PITCH_DOWN_90_def SQRT1_2_def unit_pitch_def qScale_def)

lemma qNorm2_reverse_product: "0 < qNorm2 r \<Longrightarrow> 0 < qNorm2 (reverse_product r)"
  by (simp add: reverse_product_def qNorm2_qMul qNorm2_qConj qNorm2_constants)

lemma forgeToPanoQuaternion_direction:
  assumes r: "same_direction r r'" and pos: "0 < qNorm2 r'"
  shows "on_quat forgeToPanoQuaternion r = qNormalize (reverse_product r')"
proof -
  let ?s1 = "qMul (qInverse QUAT_TRANSFORM) r"
  let ?s2 = "qMul (qInverse Q_PITCH_DOWN_90) (qNormalize ?s1)"
  let ?s3 = "qMul (qInverse Q_180_Z) (qNormalize ?s2)"
  let ?t1 = "qMul (qConj QUAT_TRANSFORM) r'"
  let ?t2 = "qMul (qConj unit_pitch) ?t1"
  have d1: "same_direction ?s1 ?t1"
    by (intro same_direction_qMul same_direction_qInverse qNorm2_constants r)
  have p1: "0 < qNorm2 ?t1"
    using pos by (simp add: qNorm2_qMul qNorm2_qConj qNorm2_constants)
  have n1: "same_direction (qNormalize ?s1) ?t1"
    by (rule same_direction_trans[OF same_direction_qNormalize[OF same_direction_qNorm2[OF d1 p1]] d1])
  have ip: "same_direction (qInverse Q_PITCH_DOWN_90) (qConj unit_pitch)"
    by (rule same_direction_trans[OF same_direction_qInverse[OF qNorm2_constants(4)]
          same_direction_qConj[OF pitch_direction]])
  have d2: "same_direction ?s2 ?t2"
    by (rule same_direction_qMul[OF ip n1])
  have p2: "0 < qNorm2 ?t2"
    using p1 by (simp add: qNorm2_qMul qNorm2_qConj qNorm2_constants)
  have n2: "same_direction (qNormalize ?s2) ?t2"
    by (rule same_direction_trans[OF same_direction_qNormalize[OF same_direction_qNorm2[OF d2 p2]] d2])
  have d3: "same_direction ?s3 (reverse_product r')"
    unfolding reverse_product_def
    by (rule same_direction_qMul[OF same_direction_qInverse[OF qNorm2_constants(3)] n2])
  have "on_quat forgeToPanoQuaternion r = qNormalize ?s3"
    by (simp add: on_quat_def forgeToPanoQuaternion_def Let_def quat_eta)
  also have "\<dots> = qNormalize (reverse_product r')"
    by (rule qNormalize_same_direction[OF d3])
  finally show ?thesis .
qed

lemma transformQuaternion_direction:
  "0 < qNorm2 q \<Longrightarrow> same_direction (on_quat transformQuaternion q) (qMul QUAT_TRANSFORM q)"
  unfolding on_quat_def transformQuaternion_def quat_eta
  by (simp add: same_direction_qNormalize qNorm2_qMul qNorm2_constants)

lemma forgeViewerRotation_direction:
  assumes "0 < qNorm2 q"
  shows "same_direction (on_quat forgeViewerRotation q) (qMul (qMul QUAT_TRANSFORM q) unit_pitch)"
proof -
  have "on_quat forgeViewerRotation q = qMul (on_quat transformQuaternion q) Q_PITCH_DOWN_90"
    by (simp add: on_quat_def forgeViewerRotation_def Let_def Quaternion_multiply_qMul
        Q_PITCH_DOWN_90_def)
  then show ?thesis
    by (simp add: same_direction_qMul transformQuaternion_direction[OF assms] pitch_direction)
qed

lemma forwardOrientation_direction:
  assumes "0 < qNorm2 q"
  shows "same_direction (on_quat forwardOrientation q)
           (qMul Q_180_Z (qMul (qMul QUAT_TRANSFORM q) unit_pitch))"
proof -
  let ?t = "qMul Q_180_Z (qMul (qMul QUAT_TRANSFORM q) unit_pitch)"
  have d: "same_direction (qMul Q_180_Z (on_quat forgeViewerRotation q)) ?t"
    by (intro same_direction_qMul same_direction_refl forgeViewerRotation_direction assms)
  have p: "0 < qNorm2 ?t"
    using assms by (simp add: qNorm2_qMul qNorm2_constants)
  have "on_quat forwardOrientation q = qNormalize (qMul Q_180_Z (on_quat forgeViewerRotation q))"
    by (simp add: on_quat_def forwardOrientation_def)
  then show ?thesis
    using same_direction_trans[OF same_direction_qNormalize[OF same_direction_qNorm2[OF d p]] d]
    by simp
qed

lemma oppositeOrientation_direction:
  assumes "0 < qNorm2 q"
  shows "same_direction (on_quat oppositeOrientation q)
           (qMul QUAT_TRANSFORM (qMul unit_pitch (qMul Q_180_Z q)))"
proof -
  let ?a = "qMul Q_180_Z q"
  let ?b = "qMul Q_PITCH_DOWN_90 (qNormalize ?a)"
  let ?c = "qMul QUAT_TRANSFORM (qNormalize ?b)"
  have pa: "0 < qNorm2 ?a" using assms by (simp add: qNorm2_qMul qNorm2_constants)
  have na: "same_direction (qNormalize ?a) ?a" by (rule same_direction_qNormalize[OF pa])
  have db: "same_direction ?b (qMul unit_pitch ?a)"
    by (rule same_direction_qMul[OF pitch_direction na])
  have pb: "0 < qNorm2 (qMul unit_pitch ?a)" using pa by (simp add: qNorm2_qMul qNorm2_constants)
  have nb: "same_direction (qNormalize ?b) (qMul unit_pitch ?a)"
    by (rule same_direction_trans[OF same_direction_qNormalize[OF same_direction_qNorm2[OF db pb]] db])
  have dc: "same_direction ?c (qMul QUAT_TRANSFORM (qMul unit_pitch ?a))"
    by (rule same_direction_qMul[OF same_direction_refl nb])
  have pc: "0 < qNorm2 (qMul QUAT_TRANSFORM (qMul unit_pitch ?a))"
    using pb by (simp add: qNorm2_qMul qNorm2_constants)
  have "on_quat oppositeOrientation q = qNormalize ?c"
    by (simp add: on_quat_def oppositeOrientation_def Let_def quat_eta)
  then show ?thesis
    using same_direction_trans[OF same_direction_qNormalize[OF same_direction_qNorm2[OF dc pc]] dc]
    by simp
qed

section \<open>The reverse orientation pipeline\<close>

lemmas quat_constants = QUAT_TRANSFORM_def unit_pitch_def Q_180_Z_def

lemma identity_norm: "0 < qNorm2 \<lparr>qx = 0, qy = 0, qz = 0, qw = 1\<rparr>"
  by (simp add: qNorm2_def)

lemma qNormalize_unit: "qNorm2 q = 1 \<Longrightarrow> qNormalize q = q"
  by (simp add: qNormalize_qScale qScale_def)

lemma reverse_of_forgeViewer:
  "reverse_product (qMul (qMul QUAT_TRANSFORM \<lparr>qx = 0, qy = 0, qz = 0, qw = 1\<rparr>) unit_pitch) =
     qScale (2000000005261213 / 10 ^ 15) \<lparr>qx = 0, qy = 0, qz = - 1, qw = 0\<rparr>"
  by (simp add: reverse_product_def qMul_def qConj_def quat_constants qScale_def)

lemma reverse_of_forward:
  "reverse_product
     (qMul Q_180_Z (qMul (qMul QUAT_TRANSFORM \<lparr>qx = 0, qy = 0, qz = 0, qw = 1\<rparr>) unit_pitch)) =
   \<lparr>qx = 185709039072597 / 10 ^ 15, qy = - (17133535588401 / (625 * 10 ^ 11)), qz = 0,
    qw = - (493099971808537 / (25 * 10 ^ 13))\<rparr>"
  by (simp add: reverse_product_def qMul_def qConj_def quat_constants)

lemma forgeViewer_roundtrip:
  "on_quat forgeToPanoQuaternion (on_quat forgeViewerRotation \<lparr>qx = 0, qy = 0, qz = 0, qw = 1\<rparr>) =
     \<lparr>qx = 0, qy = 0, qz = - 1, qw = 0\<rparr>"
proof -
  let ?q0 = "\<lparr>qx = 0, qy = 0, qz = 0, qw = 1\<rparr>"
  let ?r = "qMul (qMul QUAT_TRANSFORM ?q0) unit_pitch"
  have p: "0 < qNorm2 ?r"
    by (simp add: qNorm2_qMul qNorm2_constants identity_norm)
  have "on_quat forgeToPanoQuaternion (on_quat forgeViewerRotation ?q0) =
          qNormalize (reverse_product ?r)"
    by (rule forgeToPanoQuaternion_direction[OF forgeViewerRotation_direction[OF identity_norm] p])
  also have "\<dots> = qNormalize \<lparr>qx = 0, qy = 0, qz = - 1, qw = 0\<rparr>"
    unfolding reverse_of_forgeViewer
    by (rule qNormalize_same_direction) (auto simp: same_direction_def intro!: exI[of _ "2000000005261213 / 10 ^ 15"])
  also have "\<dots> = \<lparr>qx = 0, qy = 0, qz = - 1, qw = 0\<rparr>"
    by (rule qNormalize_unit) (simp add: qNorm2_def)
  finally show ?thesis .
qed

lemma forward_roundtrip:
  "on_quat forgeToPanoQuaternion (on_quat forwardOrientation \<lparr>qx = 0, qy = 0, qz = 0, qw = 1\<rparr>) =
     qNormalize \<lparr>qx = 185709039072597 / 10 ^ 15, qy = - (17133535588401 / (625 * 10 ^ 11)), qz = 0,
                 qw = - (493099971808537 / (25 * 10 ^ 13))\<rparr>"
proof -
  let ?q0 = "\<lparr>qx = 0, qy = 0, qz = 0, qw = 1\<rparr>"
  let ?r = "qMul Q_180_Z (qMul (qMul QUAT_TRANSFORM ?q0) unit_pitch)"
  have p: "0 < qNorm2 ?r"
    by (simp add: qNorm2_qMul qNorm2_constants identity_norm)
  show ?thesis
    using forgeToPanoQuaternion_direction[OF forwardOrientation_direction[OF identity_norm] p]
    by (simp only: reverse_of_forward)
qed

lemma qx_qNormalize: "0 < qNorm2 q \<Longrightarrow> qx q \<noteq> 0 \<Longrightarrow> qx (qNormalize q) \<noteq> 0"
  by (simp add: qNormalize_qScale qScale_def)

lemma qMul_qConj_cancel: "qMul (qConj a) (qMul a x) = qScale (qNorm2 a) x"
  by (simp add: qMul_def qConj_def qScale_def qNorm2_def algebra_simps)

lemma reverse_of_opposite:
  "reverse_product (qMul QUAT_TRANSFORM (qMul unit_pitch (qMul Q_180_Z q))) =
     qScale (qNorm2 QUAT_TRANSFORM * (qNorm2 unit_pitch * qNorm2 Q_180_Z)) q"
  by (simp add: reverse_product_def qMul_qConj_cancel qMul_qScale_right qScale_qScale mult.assoc)

lemma forgeToPanoQuaternion_inverts_opposite_order:
  assumes "0 < qNorm2 q"
  shows "on_quat forgeToPanoQuaternion (on_quat oppositeOrientation q) = qNormalize q"
proof -
  let ?r = "qMul QUAT_TRANSFORM (qMul unit_pitch (qMul Q_180_Z q))"
  have p: "0 < qNorm2 ?r"
    using assms by (simp add: qNorm2_qMul qNorm2_constants)
  have k: "0 < qNorm2 QUAT_TRANSFORM * (qNorm2 unit_pitch * qNorm2 Q_180_Z)"
    by (simp add: qNorm2_constants)
  have "on_quat forgeToPanoQuaternion (on_quat oppositeOrientation q) = qNormalize (reverse_product ?r)"
    by (rule forgeToPanoQuaternion_direction[OF oppositeOrientation_direction[OF assms] p])
  also have "\<dots> = qNormalize q"
    unfolding reverse_of_opposite
    by (rule qNormalize_same_direction) (use k in \<open>auto simp: same_direction_def\<close>)
  finally show ?thesis .
qed

text \<open>
  Claim C4 says that \<^verbatim>\<open>forgeToPanoQuaternion\<close> returns the original quaternion after
  the forward pipeline, because it applies the inverse operators in reversed order.
  It applies them in the order of the forward pipeline: first the inverse of the
  calibration quaternion, then the inverse pitch, then the inverse half turn, each from
  the left. That undoes the composition in the opposite order
  (\<open>forgeToPanoQuaternion_inverts_opposite_order\<close>) and not the forward one. For the
  identity quaternion \<open>[0, 0, 0, 1]\<close>: after the rotation steps of \<^verbatim>\<open>ForgeViewer\<close>
  (calibration quaternion, then pitch) the reverse pipeline returns \<open>[0, 0, -1, 0]\<close>, a
  half turn away; after the forward pipeline with all three operators it returns the
  normalisation of \<open>[0.1857, -0.2741, 0, -1.9724]\<close>, about
  \<open>[0.0929, -0.1371, 0, -0.9862]\<close>, whose first component is not zero, so it is
  neither the identity nor its negative.
\<close>

theorem forgeToPanoQuaternion_does_not_invert_forward:
  "on_quat forgeToPanoQuaternion (on_quat forgeViewerRotation \<lparr>qx = 0, qy = 0, qz = 0, qw = 1\<rparr>) =
     \<lparr>qx = 0, qy = 0, qz = - 1, qw = 0\<rparr> \<and>
   on_quat forgeToPanoQuaternion (on_quat forwardOrientation \<lparr>qx = 0, qy = 0, qz = 0, qw = 1\<rparr>) =
     qNormalize \<lparr>qx = 185709039072597 / 10 ^ 15, qy = - (17133535588401 / (625 * 10 ^ 11)), qz = 0,
                 qw = - (493099971808537 / (25 * 10 ^ 13))\<rparr> \<and>
   qx (on_quat forgeToPanoQuaternion (on_quat forwardOrientation \<lparr>qx = 0, qy = 0, qz = 0, qw = 1\<rparr>)) \<noteq> 0"
proof -
  have "qx (qNormalize \<lparr>qx = 185709039072597 / 10 ^ 15, qy = - (17133535588401 / (625 * 10 ^ 11)),
          qz = 0, qw = - (493099971808537 / (25 * 10 ^ 13))\<rparr>) \<noteq> 0"
    by (rule qx_qNormalize) (simp_all add: qNorm2_def)
  then show ?thesis
    by (simp only: forgeViewer_roundtrip forward_roundtrip) simp
qed

end
